theory Spec2Isabelle
  imports Complex_Main "HOL-Library.Word" "HOL-Library.Sublist" "HOL-Library.AList"
begin

section \<open>FlexType: a shallow embedding of \<^verbatim>\<open>dist/flextype.cjs.js\<close>\<close>

text \<open>
  The library wraps an arbitrary JavaScript value, infers a type tag for it, coerces
  strings and booleans once at construction, and offers arithmetic, a character shift
  and collection access on the wrapped value. The embedding has two layers.

  \<^item> The \<^emph>\<open>host layer\<close> models the part of ECMAScript that the library calls: strings as
    lists of UTF-16 code units, numbers as IEEE-754 binary64 values, \<^verbatim>\<open>trim\<close>,
    \<^verbatim>\<open>Number(string)\<close>, \<^verbatim>\<open>String(number)\<close>, \<^verbatim>\<open>JSON.parse\<close>, the arithmetic operators and a
    store of arrays and objects. Where the behaviour of the host lies outside this
    fragment (user-defined conversions of objects, inherited properties, BigInt
    arithmetic) an operation yields the explicit outcome \<open>Unmodelled\<close>, about which
    nothing is claimed.
  \<^item> The \<^emph>\<open>library layer\<close> follows the source function by function, with the names of
    the source (without the leading underscore that Isabelle does not admit).
\<close>

subsection \<open>Host: strings\<close>

type_synonym jchar = "16 word"
type_synonym jstring = "jchar list"

text \<open>A string literal of the source, as code units.\<close>

definition lit :: "string \<Rightarrow> jstring" where
  "lit s = map of_char s"

text \<open>
  \<^verbatim>\<open>String.prototype.trim\<close> removes WhiteSpace and LineTerminator code points from both
  ends: TAB, LF, VT, FF, CR, SP, NBSP, U+1680, U+2000..U+200A, U+2028, U+2029, U+202F,
  U+205F, U+3000 and U+FEFF.
\<close>

definition is_ws :: "jchar \<Rightarrow> bool" where
  "is_ws c \<longleftrightarrow> (0x09 \<le> c \<and> c \<le> 0x0D) \<or> c = 0x20 \<or> c = 0xA0 \<or> c = 0x1680
     \<or> (0x2000 \<le> c \<and> c \<le> 0x200A) \<or> c = 0x2028 \<or> c = 0x2029 \<or> c = 0x202F
     \<or> c = 0x205F \<or> c = 0x3000 \<or> c = 0xFEFF"

definition trim :: "jstring \<Rightarrow> jstring" where
  "trim s = rev (dropWhile is_ws (rev (dropWhile is_ws s)))"

text \<open>
  \<^verbatim>\<open>String.prototype.toLowerCase\<close>, modelled on the ASCII letters. The library only
  compares the result with \<^verbatim>\<open>'true'\<close> and \<^verbatim>\<open>'false'\<close>; no code point outside ASCII has a
  lower-case mapping that contains one of the letters of these two words, so the
  comparison has the same outcome as in the host for every string.
\<close>

definition lower_char :: "jchar \<Rightarrow> jchar" where
  "lower_char c = (if 0x41 \<le> c \<and> c \<le> 0x5A then c + 0x20 else c)"

definition toLowerCase :: "jstring \<Rightarrow> jstring" where
  "toLowerCase s = map lower_char s"

definition startsWith :: "jstring \<Rightarrow> jchar \<Rightarrow> bool" where
  "startsWith s c \<longleftrightarrow> (case s of [] \<Rightarrow> False | x # _ \<Rightarrow> x = c)"

definition endsWith :: "jstring \<Rightarrow> jchar \<Rightarrow> bool" where
  "endsWith s c \<longleftrightarrow> (s \<noteq> [] \<and> last s = c)"

subsection \<open>Host: numbers\<close>

text \<open>
  A Number is an IEEE-754 binary64 value: not-a-number, the two infinities, negative
  zero, or a finite value (\<open>Fin 0\<close> is positive zero). The finite values that occur
  are the rationals \<open>m * 2 ^ e\<close> with \<open>\<bar>m\<bar> < 2 ^ 53\<close> and \<open>- 1074 \<le> e \<le> 971\<close>; every
  arithmetic result is rounded to the nearest such value, ties to even, by \<open>fl\<close>.
\<close>

datatype jsnum = NaN | PInf | NInf | NZero | Fin rat

fun blen :: "nat \<Rightarrow> nat" where
  "blen n = (if n = 0 then 0 else Suc (blen (n div 2)))"

declare blen.simps [simp del]

text \<open>\<open>ilog2 a\<close> is the binary exponent of a positive rational: \<open>2 ^ ilog2 a \<le> a < 2 ^ (ilog2 a + 1)\<close>.\<close>

definition ilog2 :: "rat \<Rightarrow> int" where
  "ilog2 a = (if 1 \<le> a then int (blen (nat \<lfloor>a\<rfloor>)) - 1
              else - int (blen (nat (\<lceil>1 / a\<rceil> - 1))))"

text \<open>Rounding to the nearest integer, ties to even.\<close>

definition rne :: "rat \<Rightarrow> int" where
  "rne t = (let f = \<lfloor>t\<rfloor>; d = t - of_int f
            in if d < 1 / 2 \<or> (d = 1 / 2 \<and> even f) then f else f + 1)"

text \<open>
  \<open>fl a\<close> rounds a positive rational to binary64: the significand has 53 bits, the
  least exponent is \<open>- 1074\<close> (subnormal numbers), and a result of \<open>2 ^ 1024\<close> or more
  overflows to infinity.
\<close>

definition fl :: "rat \<Rightarrow> jsnum" where
  "fl a = (let e = max (ilog2 a - 52) (- 1074);
               r = of_int (rne (a / 2 powi e)) * 2 powi e
           in if 2 ^ 1024 \<le> r then PInf else Fin r)"

definition num_neg :: "jsnum \<Rightarrow> jsnum" where
  "num_neg x = (case x of NaN \<Rightarrow> NaN | PInf \<Rightarrow> NInf | NInf \<Rightarrow> PInf | NZero \<Rightarrow> Fin 0
                | Fin q \<Rightarrow> if q = 0 then NZero else Fin (- q))"

text \<open>Rounding of a non-zero rational of either sign; a negative result that underflows is \<open>-0\<close>.\<close>

definition fl_signed :: "rat \<Rightarrow> jsnum" where
  "fl_signed q = (if 0 < q then fl q else num_neg (fl (- q)))"

definition is_negative :: "jsnum \<Rightarrow> bool" where
  "is_negative x = (case x of NInf \<Rightarrow> True | NZero \<Rightarrow> True | Fin q \<Rightarrow> q < 0 | _ \<Rightarrow> False)"

definition is_zero :: "jsnum \<Rightarrow> bool" where
  "is_zero x \<longleftrightarrow> x = NZero \<or> x = Fin 0"

definition is_inf :: "jsnum \<Rightarrow> bool" where
  "is_inf x \<longleftrightarrow> x = PInf \<or> x = NInf"

definition magnitude :: "jsnum \<Rightarrow> rat" where
  "magnitude x = (case x of Fin q \<Rightarrow> \<bar>q\<bar> | _ \<Rightarrow> 0)"

definition with_sign :: "bool \<Rightarrow> jsnum \<Rightarrow> jsnum" where
  "with_sign neg x = (if neg then num_neg x else x)"

definition isNaN_num :: "jsnum \<Rightarrow> bool" where
  "isNaN_num x \<longleftrightarrow> x = NaN"

definition isFinite_num :: "jsnum \<Rightarrow> bool" where
  "isFinite_num x \<longleftrightarrow> x \<noteq> NaN \<and> x \<noteq> PInf \<and> x \<noteq> NInf"

text \<open>The operators \<^verbatim>\<open>+ - * /\<close> on Numbers (IEEE-754, round to nearest).\<close>

definition num_add :: "jsnum \<Rightarrow> jsnum \<Rightarrow> jsnum" where
  "num_add x y =
     (if x = NaN \<or> y = NaN then NaN
      else if is_inf x then (if is_inf y \<and> y \<noteq> x then NaN else x)
      else if is_inf y then y
      else if is_zero x \<and> is_zero y then (if x = NZero \<and> y = NZero then NZero else Fin 0)
      else let s = (case x of Fin a \<Rightarrow> a | _ \<Rightarrow> 0) + (case y of Fin b \<Rightarrow> b | _ \<Rightarrow> 0)
           in if s = 0 then Fin 0 else fl_signed s)"

definition num_sub :: "jsnum \<Rightarrow> jsnum \<Rightarrow> jsnum" where
  "num_sub x y = num_add x (num_neg y)"

definition num_mul :: "jsnum \<Rightarrow> jsnum \<Rightarrow> jsnum" where
  "num_mul x y =
     (if x = NaN \<or> y = NaN then NaN
      else let neg = (is_negative x \<noteq> is_negative y) in
        if is_inf x \<or> is_inf y
        then (if is_zero x \<or> is_zero y then NaN else with_sign neg PInf)
        else if is_zero x \<or> is_zero y then with_sign neg (Fin 0)
        else with_sign neg (fl (magnitude x * magnitude y)))"

definition num_div :: "jsnum \<Rightarrow> jsnum \<Rightarrow> jsnum" where
  "num_div x y =
     (if x = NaN \<or> y = NaN then NaN
      else let neg = (is_negative x \<noteq> is_negative y) in
        if is_inf x then (if is_inf y then NaN else with_sign neg PInf)
        else if is_inf y then with_sign neg (Fin 0)
        else if is_zero y then (if is_zero x then NaN else with_sign neg PInf)
        else if is_zero x then with_sign neg (Fin 0)
        else with_sign neg (fl (magnitude x / magnitude y)))"

text \<open>
  \<^verbatim>\<open>Math.max\<close> and \<^verbatim>\<open>Math.min\<close> of two Numbers: not-a-number if either is, and \<open>+0\<close> counts
  as larger than \<open>-0\<close>.
\<close>

definition num_less :: "jsnum \<Rightarrow> jsnum \<Rightarrow> bool" where
  "num_less x y =
     (case (x, y) of
        (NaN, _) \<Rightarrow> False | (_, NaN) \<Rightarrow> False
      | (PInf, _) \<Rightarrow> False | (_, PInf) \<Rightarrow> True
      | (_, NInf) \<Rightarrow> False | (NInf, _) \<Rightarrow> True
      | (NZero, NZero) \<Rightarrow> False | (NZero, Fin b) \<Rightarrow> 0 \<le> b
      | (Fin a, NZero) \<Rightarrow> a < 0 | (Fin a, Fin b) \<Rightarrow> a < b)"

definition num_max :: "jsnum \<Rightarrow> jsnum \<Rightarrow> jsnum" where
  "num_max x y = (if x = NaN \<or> y = NaN then NaN else if num_less x y then y else x)"

definition num_min :: "jsnum \<Rightarrow> jsnum \<Rightarrow> jsnum" where
  "num_min x y = (if x = NaN \<or> y = NaN then NaN else if num_less y x then y else x)"

text \<open>\<^verbatim>\<open>ToUint16\<close>, as used by \<^verbatim>\<open>String.fromCharCode\<close>: truncate, then reduce modulo \<open>2 ^ 16\<close>.\<close>

definition truncate_rat :: "rat \<Rightarrow> int" where
  "truncate_rat q = (if 0 \<le> q then \<lfloor>q\<rfloor> else - \<lfloor>- q\<rfloor>)"

definition ToUint16 :: "jsnum \<Rightarrow> jchar" where
  "ToUint16 x = (case x of Fin q \<Rightarrow> word_of_int (truncate_rat q) | _ \<Rightarrow> 0)"

subsection \<open>Host: \<^verbatim>\<open>Number(string)\<close>\<close>

text \<open>
  \<^verbatim>\<open>StringToNumber\<close>: the text is stripped of white space; the empty text is \<open>+0\<close>; a
  binary, octal or hexadecimal integer literal, \<^verbatim>\<open>Infinity\<close> with an optional sign, or
  a signed decimal literal with optional fraction and exponent gives its mathematical
  value rounded to binary64; any other text is not-a-number.
\<close>

definition char_digit :: "jchar \<Rightarrow> nat" where
  "char_digit c =
     (if 0x30 \<le> c \<and> c \<le> 0x39 then unat c - 48
      else if 0x61 \<le> c \<and> c \<le> 0x66 then unat c - 87
      else if 0x41 \<le> c \<and> c \<le> 0x46 then unat c - 55
      else 36)"

definition is_digit_in :: "nat \<Rightarrow> jchar \<Rightarrow> bool" where
  "is_digit_in b c \<longleftrightarrow> char_digit c < b"

definition is_digit :: "jchar \<Rightarrow> bool" where
  "is_digit c \<longleftrightarrow> 0x30 \<le> c \<and> c \<le> 0x39"

definition digits_val :: "nat \<Rightarrow> jstring \<Rightarrow> nat" where
  "digits_val b ds = foldl (\<lambda>a c. b * a + char_digit c) 0 ds"

definition all_digits :: "jstring \<Rightarrow> bool" where
  "all_digits ds \<longleftrightarrow> ds \<noteq> [] \<and> list_all is_digit ds"

definition parse_signed_integer :: "jstring \<Rightarrow> int option" where
  "parse_signed_integer s =
     (case s of [] \<Rightarrow> None
      | c # ds \<Rightarrow>
          if c = 0x2B then (if all_digits ds then Some (int (digits_val 10 ds)) else None)
          else if c = 0x2D then (if all_digits ds then Some (- int (digits_val 10 ds)) else None)
          else if all_digits s then Some (int (digits_val 10 s)) else None)"

definition parse_exponent :: "jstring \<Rightarrow> int option" where
  "parse_exponent r =
     (case r of [] \<Rightarrow> Some 0
      | c # r1 \<Rightarrow> if c = 0x65 \<or> c = 0x45 then parse_signed_integer r1 else None)"

text \<open>The mathematical value of an unsigned decimal literal, or \<open>None\<close> if the text is not one.\<close>

definition parse_unsigned_decimal :: "jstring \<Rightarrow> rat option" where
  "parse_unsigned_decimal s =
     (let ip = takeWhile is_digit s; r1 = dropWhile is_digit s in
      case r1 of
        [] \<Rightarrow> if ip = [] then None else Some (of_nat (digits_val 10 ip))
      | c # r2 \<Rightarrow>
          if c = 0x2E then
            (let fp = takeWhile is_digit r2; r3 = dropWhile is_digit r2 in
             if ip = [] \<and> fp = [] then None
             else map_option
                    (\<lambda>x. of_nat (digits_val 10 (ip @ fp)) * 10 powi (x - int (length fp)))
                    (parse_exponent r3))
          else if ip = [] then None
          else map_option (\<lambda>x. of_nat (digits_val 10 ip) * 10 powi x) (parse_exponent r1))"

definition radix_prefix :: "jstring \<Rightarrow> nat option" where
  "radix_prefix s =
     (case s of
        c0 # c1 # _ \<Rightarrow>
          if c0 = 0x30 then
            (if c1 = 0x78 \<or> c1 = 0x58 then Some 16
             else if c1 = 0x6F \<or> c1 = 0x4F then Some 8
             else if c1 = 0x62 \<or> c1 = 0x42 then Some 2
             else None)
          else None
      | _ \<Rightarrow> None)"

definition num_of_mv :: "bool \<Rightarrow> rat \<Rightarrow> jsnum" where
  "num_of_mv neg mv = (if mv = 0 then with_sign neg (Fin 0) else with_sign neg (fl mv))"

definition StringToNumber :: "jstring \<Rightarrow> jsnum" where
  "StringToNumber str =
     (let s = trim str in
      if s = [] then Fin 0
      else case radix_prefix s of
        Some b \<Rightarrow>
          (let ds = drop 2 s in
           if ds \<noteq> [] \<and> list_all (is_digit_in b) ds
           then num_of_mv False (of_nat (digits_val b ds)) else NaN)
      | None \<Rightarrow>
          (let neg = (hd s = 0x2D);
               u = (if hd s = 0x2D \<or> hd s = 0x2B then tl s else s) in
           if u = lit ''Infinity'' then with_sign neg PInf
           else case parse_unsigned_decimal u of
                  None \<Rightarrow> NaN
                | Some mv \<Rightarrow> num_of_mv neg mv))"

subsection \<open>Host: \<^verbatim>\<open>String(number)\<close>\<close>

text \<open>
  \<^verbatim>\<open>Number::toString\<close> prints a finite non-zero value \<open>x\<close> with the least number \<open>k\<close> of
  significant digits \<open>s\<close> and the decimal exponent \<open>n\<close> such that \<open>s * 10 ^ (n - k)\<close> rounds
  to \<open>x\<close>, choosing the candidate closest to \<open>x\<close>. For each \<open>k\<close> only the two \<open>k\<close>-digit
  decimals around \<open>x\<close> can round to \<open>x\<close>. Seventeen digits determine every binary64
  value, so the search ends within its bound; the last branch (the exact decimal
  expansion, which every binary64 value has) makes the function total.
\<close>

fun dlen :: "nat \<Rightarrow> nat" where
  "dlen n = (if n = 0 then 0 else Suc (dlen (n div 10)))"

declare dlen.simps [simp del]

definition digit_char :: "nat \<Rightarrow> jchar" where
  "digit_char d = of_nat (48 + d)"

fun dec_digits :: "nat \<Rightarrow> jstring" where
  "dec_digits n = (if n < 10 then [digit_char n] else dec_digits (n div 10) @ [digit_char (n mod 10)])"

declare dec_digits.simps [simp del]

text \<open>The decimal exponent of a positive rational: \<open>10 ^ (dexp x - 1) \<le> x < 10 ^ dexp x\<close>.\<close>

definition dexp :: "rat \<Rightarrow> int" where
  "dexp x = (if 1 \<le> x then int (dlen (nat \<lfloor>x\<rfloor>))
             else 1 - int (dlen (nat (\<lceil>1 / x\<rceil> - 1))))"

text \<open>
  The value \<open>s * 10 ^ (n - k)\<close> of the digits \<open>s\<close> with the decimal exponent \<open>n\<close>, where \<open>k\<close>
  is the number of digits of \<open>s\<close>.
\<close>

definition dec_value :: "nat \<times> int \<Rightarrow> rat" where
  "dec_value c = of_nat (fst c) * 10 powi (snd c - int (length (dec_digits (fst c))))"

text \<open>The two decimals with \<open>k\<close> digits around \<open>x\<close>, where \<open>10 ^ (n0 - 1) \<le> x < 10 ^ n0\<close>.\<close>

definition cand_lo :: "rat \<Rightarrow> int \<Rightarrow> nat \<Rightarrow> nat \<times> int" where
  "cand_lo x n0 k = (nat \<lfloor>x * 10 powi (int k - n0)\<rfloor>, n0)"

definition cand_hi :: "rat \<Rightarrow> int \<Rightarrow> nat \<Rightarrow> nat \<times> int" where
  "cand_hi x n0 k =
     (if nat \<lfloor>x * 10 powi (int k - n0)\<rfloor> + 1 = 10 ^ k then (10 ^ (k - 1), n0 + 1)
      else (nat \<lfloor>x * 10 powi (int k - n0)\<rfloor> + 1, n0))"

definition rounds_to :: "rat \<Rightarrow> nat \<times> int \<Rightarrow> bool" where
  "rounds_to x c \<longleftrightarrow> fl (dec_value c) = Fin x"

definition closer_lo :: "rat \<Rightarrow> nat \<times> int \<Rightarrow> nat \<times> int \<Rightarrow> bool" where
  "closer_lo x lo hi \<longleftrightarrow>
     x - dec_value lo < dec_value hi - x
     \<or> (x - dec_value lo = dec_value hi - x \<and> even (fst lo))"

definition pick :: "rat \<Rightarrow> int \<Rightarrow> nat \<Rightarrow> (nat \<times> int) option" where
  "pick x n0 k =
     (if rounds_to x (cand_lo x n0 k) \<and> rounds_to x (cand_hi x n0 k) then
        (if closer_lo x (cand_lo x n0 k) (cand_hi x n0 k)
         then Some (cand_lo x n0 k) else Some (cand_hi x n0 k))
      else if rounds_to x (cand_lo x n0 k) then Some (cand_lo x n0 k)
      else if rounds_to x (cand_hi x n0 k) then Some (cand_hi x n0 k)
      else None)"

function shortest :: "rat \<Rightarrow> int \<Rightarrow> nat \<Rightarrow> nat \<times> int" where
  "shortest x n0 k =
     (if 17 < k
      then (nat \<lfloor>x * 10 ^ 1074\<rfloor>, int (dlen (nat \<lfloor>x * 10 ^ 1074\<rfloor>)) - 1074)
      else case pick x n0 k of Some c \<Rightarrow> c | None \<Rightarrow> shortest x n0 (Suc k))"
  by pat_completeness auto
termination
  by (relation "measure (\<lambda>(x, n0, k). 18 - k)") auto

declare shortest.simps [simp del]

definition fmt :: "nat \<Rightarrow> int \<Rightarrow> jstring" where
  "fmt s n =
     (let ds = dec_digits s; k = int (length ds) in
      if - 5 \<le> n \<and> n \<le> 21 then
        (if k \<le> n then ds @ replicate (nat (n - k)) 0x30
         else if 0 < n then take (nat n) ds @ [0x2E] @ drop (nat n) ds
         else [0x30, 0x2E] @ replicate (nat (- n)) 0x30 @ ds)
      else
        (let e = n - 1;
             es = (if 0 < e then [0x2B] else [0x2D]) @ dec_digits (nat \<bar>e\<bar>) in
         if k = 1 then ds @ [0x65] @ es
         else take 1 ds @ [0x2E] @ drop 1 ds @ [0x65] @ es))"

definition pos_toString :: "rat \<Rightarrow> jstring" where
  "pos_toString x = fmt (fst (shortest x (dexp x) 1)) (snd (shortest x (dexp x) 1))"

definition num_toString :: "jsnum \<Rightarrow> jstring" where
  "num_toString x =
     (case x of
        NaN \<Rightarrow> lit ''NaN''
      | PInf \<Rightarrow> lit ''Infinity''
      | NInf \<Rightarrow> lit ''-Infinity''
      | NZero \<Rightarrow> lit ''0''
      | Fin q \<Rightarrow> if q = 0 then lit ''0''
                 else if q < 0 then 0x2D # pos_toString (- q)
                 else pos_toString q)"

subsection \<open>Host: values, the store and outcomes\<close>

text \<open>
  A value is a primitive, a reference to a plain array or a plain object in the store,
  or one of the other kinds of value that \<^verbatim>\<open>typeof\<close>, \<^verbatim>\<open>Array.isArray\<close> and \<^verbatim>\<open>instanceof\<close>
  tell apart (their contents play no role in the library).
\<close>

datatype jsval =
    JUndefined | JNull | JBool bool | JNum jsnum | JStr jstring
  | JArr nat | JObj nat
  | JDate | JRegExp | JMap | JSet
  | JFunction | JSymbol | JBigInt int

datatype container = Arr "jsval list" | Obj "(jstring \<times> jsval) list"

type_synonym heap = "container list"

definition arr_at :: "heap \<Rightarrow> nat \<Rightarrow> jsval list option" where
  "arr_at h r = (if r < length h then (case h ! r of Arr xs \<Rightarrow> Some xs | Obj _ \<Rightarrow> None) else None)"

definition obj_at :: "heap \<Rightarrow> nat \<Rightarrow> (jstring \<times> jsval) list option" where
  "obj_at h r = (if r < length h then (case h ! r of Obj ms \<Rightarrow> Some ms | Arr _ \<Rightarrow> None) else None)"

text \<open>
  An operation returns a value, throws, or leaves the modelled fragment of the host.
  \<open>Error m\<close> is \<^verbatim>\<open>new Error(m)\<close>; \<open>TypeError\<close> is a host type error.
\<close>

datatype error = Error jstring | TypeError

datatype 'a outcome = Returns 'a | Throws error | Unmodelled

definition typeof :: "jsval \<Rightarrow> string" where
  "typeof v =
     (case v of
        JUndefined \<Rightarrow> ''undefined'' | JNull \<Rightarrow> ''object'' | JBool _ \<Rightarrow> ''boolean''
      | JNum _ \<Rightarrow> ''number'' | JStr _ \<Rightarrow> ''string''
      | JArr _ \<Rightarrow> ''object'' | JObj _ \<Rightarrow> ''object''
      | JDate \<Rightarrow> ''object'' | JRegExp \<Rightarrow> ''object'' | JMap \<Rightarrow> ''object'' | JSet \<Rightarrow> ''object''
      | JFunction \<Rightarrow> ''function'' | JSymbol \<Rightarrow> ''symbol'' | JBigInt _ \<Rightarrow> ''bigint'')"

definition Array_isArray :: "jsval \<Rightarrow> bool" where
  "Array_isArray v = (case v of JArr _ \<Rightarrow> True | _ \<Rightarrow> False)"

text \<open>\<^verbatim>\<open>ToBoolean\<close>: the truthiness used by \<^verbatim>\<open>Boolean(v)\<close> and by \<^verbatim>\<open>v ? a : b\<close>.\<close>

definition ToBoolean :: "jsval \<Rightarrow> bool" where
  "ToBoolean v =
     (case v of
        JUndefined \<Rightarrow> False | JNull \<Rightarrow> False | JBool b \<Rightarrow> b
      | JNum n \<Rightarrow> \<not> (n = NaN \<or> is_zero n)
      | JStr s \<Rightarrow> s \<noteq> []
      | JBigInt i \<Rightarrow> i \<noteq> 0
      | _ \<Rightarrow> True)"

text \<open>
  \<^verbatim>\<open>ToNumber\<close> and \<^verbatim>\<open>ToString\<close> on primitives. For an object the host calls its
  conversion methods, which is outside the model; symbols and BigInts are left out of
  the arithmetic as well.
\<close>

definition ToNumber :: "jsval \<Rightarrow> jsnum outcome" where
  "ToNumber v =
     (case v of
        JUndefined \<Rightarrow> Returns NaN | JNull \<Rightarrow> Returns (Fin 0)
      | JBool b \<Rightarrow> Returns (if b then Fin 1 else Fin 0)
      | JNum n \<Rightarrow> Returns n
      | JStr s \<Rightarrow> Returns (StringToNumber s)
      | _ \<Rightarrow> Unmodelled)"

definition ToString :: "jsval \<Rightarrow> jstring outcome" where
  "ToString v =
     (case v of
        JUndefined \<Rightarrow> Returns (lit ''undefined'') | JNull \<Rightarrow> Returns (lit ''null'')
      | JBool b \<Rightarrow> Returns (if b then lit ''true'' else lit ''false'')
      | JNum n \<Rightarrow> Returns (num_toString n)
      | JStr s \<Rightarrow> Returns s
      | _ \<Rightarrow> Unmodelled)"

definition bind :: "'a outcome \<Rightarrow> ('a \<Rightarrow> 'b outcome) \<Rightarrow> 'b outcome" where
  "bind m f = (case m of Returns x \<Rightarrow> f x | Throws e \<Rightarrow> Throws e | Unmodelled \<Rightarrow> Unmodelled)"

text \<open>The global \<^verbatim>\<open>isNaN\<close> and \<^verbatim>\<open>isFinite\<close> and the function \<^verbatim>\<open>Number\<close>, applied to a string.\<close>

definition isNaN :: "jstring \<Rightarrow> bool" where
  "isNaN s = isNaN_num (StringToNumber s)"

definition Number_of :: "jstring \<Rightarrow> jsnum" where
  "Number_of s = StringToNumber s"

definition isFinite :: "jsnum \<Rightarrow> bool" where
  "isFinite n = isFinite_num n"

text \<open>
  The binary operators. \<^verbatim>\<open>+\<close> concatenates when either operand is a string and adds
  numbers otherwise; \<^verbatim>\<open>-\<close>, \<^verbatim>\<open>*\<close> and \<^verbatim>\<open>/\<close> convert both operands to numbers.
\<close>

definition is_string :: "jsval \<Rightarrow> bool" where
  "is_string v = (case v of JStr _ \<Rightarrow> True | _ \<Rightarrow> False)"

definition numeric_op :: "(jsnum \<Rightarrow> jsnum \<Rightarrow> jsnum) \<Rightarrow> jsval \<Rightarrow> jsval \<Rightarrow> jsval outcome" where
  "numeric_op f a b = bind (ToNumber a) (\<lambda>x. bind (ToNumber b) (\<lambda>y. Returns (JNum (f x y))))"

definition js_add :: "jsval \<Rightarrow> jsval \<Rightarrow> jsval outcome" where
  "js_add a b =
     (if is_string a \<or> is_string b
      then bind (ToString a) (\<lambda>x. bind (ToString b) (\<lambda>y. Returns (JStr (x @ y))))
      else numeric_op num_add a b)"

definition js_sub :: "jsval \<Rightarrow> jsval \<Rightarrow> jsval outcome" where
  "js_sub a b = numeric_op num_sub a b"

definition js_mul :: "jsval \<Rightarrow> jsval \<Rightarrow> jsval outcome" where
  "js_mul a b = numeric_op num_mul a b"

definition js_div :: "jsval \<Rightarrow> jsval \<Rightarrow> jsval outcome" where
  "js_div a b = numeric_op num_div a b"

definition Math_min :: "jsval \<Rightarrow> jsval \<Rightarrow> jsval outcome" where
  "Math_min a b = numeric_op num_min a b"

definition Math_max :: "jsval \<Rightarrow> jsval \<Rightarrow> jsval outcome" where
  "Math_max a b = numeric_op num_max a b"

text \<open>\<^verbatim>\<open>String.fromCharCode(n)\<close> is the single code unit \<^verbatim>\<open>ToUint16(n)\<close>.\<close>

definition String_fromCharCode :: "jsnum \<Rightarrow> jstring" where
  "String_fromCharCode n = [ToUint16 n]"

definition charCode :: "jchar \<Rightarrow> jsnum" where
  "charCode c = Fin (of_nat (unat c))"

subsection \<open>Host: \<^verbatim>\<open>JSON.parse\<close>\<close>

text \<open>
  The text is split into tokens by a scanner that reads one code unit at a time, the
  tokens are assembled by a stack automaton into a tree, and the tree is written to
  the store, every array and object into a fresh cell. A syntax error is \<open>None\<close>.
\<close>

datatype json =
    JsNull | JsBool bool | JsNum jsnum | JsStr jstring
  | JsArr "json list" | JsObj "(jstring \<times> json) list"

datatype token = TPunct jchar | TValue json

text \<open>The scanner's modes; the accumulated code units are kept in reverse.\<close>

datatype lexmode = LIdle | LWord jstring | LStr jstring | LEsc jstring | LUni jstring "nat list"

definition is_word_char :: "jchar \<Rightarrow> bool" where
  "is_word_char c \<longleftrightarrow> (0x30 \<le> c \<and> c \<le> 0x39) \<or> (0x41 \<le> c \<and> c \<le> 0x5A)
     \<or> (0x61 \<le> c \<and> c \<le> 0x7A) \<or> c = 0x2B \<or> c = 0x2D \<or> c = 0x2E"

text \<open>The JSON number grammar: \<^verbatim>\<open>-? (0 | [1-9][0-9]*) (. [0-9]+)? ([eE] [+-]? [0-9]+)?\<close>.\<close>

definition json_number_ok :: "jstring \<Rightarrow> bool" where
  "json_number_ok text =
     (let t = (if startsWith text 0x2D then tl text else text);
          ip = takeWhile is_digit t; r1 = dropWhile is_digit t in
      ip \<noteq> [] \<and> (length ip = 1 \<or> hd ip \<noteq> 0x30) \<and>
      (case r1 of
         [] \<Rightarrow> True
       | c # r2 \<Rightarrow>
           if c = 0x2E then
             (let fp = takeWhile is_digit r2; r3 = dropWhile is_digit r2
              in fp \<noteq> [] \<and> parse_exponent r3 \<noteq> None)
           else parse_exponent r1 \<noteq> None))"

definition finish_word :: "jstring \<Rightarrow> token option" where
  "finish_word text =
     (if text = lit ''true'' then Some (TValue (JsBool True))
      else if text = lit ''false'' then Some (TValue (JsBool False))
      else if text = lit ''null'' then Some (TValue JsNull)
      else if json_number_ok text then Some (TValue (JsNum (StringToNumber text)))
      else None)"

definition idle_step :: "jchar \<Rightarrow> token list \<Rightarrow> (lexmode \<times> token list) option" where
  "idle_step c toks =
     (if c = 0x20 \<or> c = 0x09 \<or> c = 0x0A \<or> c = 0x0D then Some (LIdle, toks)
      else if c = 0x5B \<or> c = 0x5D \<or> c = 0x7B \<or> c = 0x7D \<or> c = 0x3A \<or> c = 0x2C
        then Some (LIdle, TPunct c # toks)
      else if c = 0x22 then Some (LStr [], toks)
      else if is_word_char c then Some (LWord [c], toks)
      else None)"

definition escape_char :: "jchar \<Rightarrow> jchar option" where
  "escape_char c =
     (if c = 0x22 \<or> c = 0x5C \<or> c = 0x2F then Some c
      else if c = 0x62 then Some 0x08
      else if c = 0x66 then Some 0x0C
      else if c = 0x6E then Some 0x0A
      else if c = 0x72 then Some 0x0D
      else if c = 0x74 then Some 0x09
      else None)"

fun lex_step :: "lexmode \<Rightarrow> token list \<Rightarrow> jchar \<Rightarrow> (lexmode \<times> token list) option" where
  "lex_step LIdle toks c = idle_step c toks"
| "lex_step (LWord acc) toks c =
     (if is_word_char c then Some (LWord (c # acc), toks)
      else (case finish_word (rev acc) of
              None \<Rightarrow> None
            | Some t \<Rightarrow> idle_step c (t # toks)))"
| "lex_step (LStr acc) toks c =
     (if c = 0x22 then Some (LIdle, TValue (JsStr (rev acc)) # toks)
      else if c = 0x5C then Some (LEsc acc, toks)
      else if c < 0x20 then None
      else Some (LStr (c # acc), toks))"
| "lex_step (LEsc acc) toks c =
     (if c = 0x75 then Some (LUni acc [], toks)
      else (case escape_char c of
              None \<Rightarrow> None
            | Some e \<Rightarrow> Some (LStr (e # acc), toks)))"
| "lex_step (LUni acc hs) toks c =
     (if is_digit_in 16 c then
        (let hs' = hs @ [char_digit c] in
         if length hs' = 4
         then Some (LStr (of_nat (foldl (\<lambda>a d. 16 * a + d) 0 hs') # acc), toks)
         else Some (LUni acc hs', toks))
      else None)"

fun lex :: "lexmode \<Rightarrow> token list \<Rightarrow> jstring \<Rightarrow> token list option" where
  "lex m toks [] =
     (case m of
        LIdle \<Rightarrow> Some (rev toks)
      | LWord acc \<Rightarrow> map_option (\<lambda>t. rev (t # toks)) (finish_word (rev acc))
      | _ \<Rightarrow> None)"
| "lex m toks (c # cs) =
     (case lex_step m toks c of
        None \<Rightarrow> None
      | Some (m', toks') \<Rightarrow> lex m' toks' cs)"

text \<open>
  The automaton's stack holds the arrays and objects that are still open, with their
  elements or members in reverse; \<open>FKey\<close> is an object whose next key has been read.
\<close>

datatype frame =
    FArr "json list"
  | FObj "(jstring \<times> json) list"
  | FKey "(jstring \<times> json) list" jstring

datatype pmode =
    PValue | PArrFirst | PArrNext | PObjFirst | PObjKey | PObjColon | PObjNext | PDone json

definition complete :: "json \<Rightarrow> frame list \<Rightarrow> (pmode \<times> frame list) option" where
  "complete v stack =
     (case stack of
        [] \<Rightarrow> Some (PDone v, [])
      | FArr es # st \<Rightarrow> Some (PArrNext, FArr (v # es) # st)
      | FKey ms k # st \<Rightarrow> Some (PObjNext, FObj ((k, v) # ms) # st)
      | FObj _ # _ \<Rightarrow> None)"

definition value_tok :: "token \<Rightarrow> frame list \<Rightarrow> (pmode \<times> frame list) option" where
  "value_tok t stack =
     (case t of
        TValue v \<Rightarrow> complete v stack
      | TPunct c \<Rightarrow>
          if c = 0x5B then Some (PArrFirst, FArr [] # stack)
          else if c = 0x7B then Some (PObjFirst, FObj [] # stack)
          else None)"

definition close_arr :: "frame list \<Rightarrow> (pmode \<times> frame list) option" where
  "close_arr stack = (case stack of FArr es # st \<Rightarrow> complete (JsArr (rev es)) st | _ \<Rightarrow> None)"

definition close_obj :: "frame list \<Rightarrow> (pmode \<times> frame list) option" where
  "close_obj stack = (case stack of FObj ms # st \<Rightarrow> complete (JsObj (rev ms)) st | _ \<Rightarrow> None)"

definition key_tok :: "token \<Rightarrow> frame list \<Rightarrow> (pmode \<times> frame list) option" where
  "key_tok t stack =
     (case (t, stack) of
        (TValue (JsStr k), FObj ms # st) \<Rightarrow> Some (PObjColon, FKey ms k # st)
      | _ \<Rightarrow> None)"

definition pstep :: "pmode \<Rightarrow> frame list \<Rightarrow> token \<Rightarrow> (pmode \<times> frame list) option" where
  "pstep mode stack t =
     (case mode of
        PValue \<Rightarrow> value_tok t stack
      | PArrFirst \<Rightarrow> if t = TPunct 0x5D then close_arr stack else value_tok t stack
      | PArrNext \<Rightarrow>
          if t = TPunct 0x2C then Some (PValue, stack)
          else if t = TPunct 0x5D then close_arr stack else None
      | PObjFirst \<Rightarrow> if t = TPunct 0x7D then close_obj stack else key_tok t stack
      | PObjKey \<Rightarrow> key_tok t stack
      | PObjColon \<Rightarrow> if t = TPunct 0x3A then Some (PValue, stack) else None
      | PObjNext \<Rightarrow>
          if t = TPunct 0x2C then Some (PObjKey, stack)
          else if t = TPunct 0x7D then close_obj stack else None
      | PDone _ \<Rightarrow> None)"

fun parse_tokens :: "pmode \<Rightarrow> frame list \<Rightarrow> token list \<Rightarrow> json option" where
  "parse_tokens mode stack [] = (case mode of PDone v \<Rightarrow> Some v | _ \<Rightarrow> None)"
| "parse_tokens mode stack (t # ts) =
     (case pstep mode stack t of
        None \<Rightarrow> None
      | Some (mode', stack') \<Rightarrow> parse_tokens mode' stack' ts)"

definition parse_json :: "jstring \<Rightarrow> json option" where
  "parse_json text =
     (case lex LIdle [] text of None \<Rightarrow> None | Some ts \<Rightarrow> parse_tokens PValue [] ts)"

text \<open>
  Writing a tree to the store. A member whose key occurred before replaces the value
  of the earlier member.
\<close>

fun store_json :: "json \<Rightarrow> heap \<Rightarrow> jsval \<times> heap"
  and store_list :: "json list \<Rightarrow> heap \<Rightarrow> jsval list \<times> heap"
  and store_members :: "(jstring \<times> json) list \<Rightarrow> heap \<Rightarrow> (jstring \<times> jsval) list \<times> heap"
where
  "store_json JsNull h = (JNull, h)"
| "store_json (JsBool b) h = (JBool b, h)"
| "store_json (JsNum n) h = (JNum n, h)"
| "store_json (JsStr s) h = (JStr s, h)"
| "store_json (JsArr es) h =
     (case store_list es h of (vs, h1) \<Rightarrow> (JArr (length h1), h1 @ [Arr vs]))"
| "store_json (JsObj ms) h =
     (case store_members ms h of
        (kvs, h1) \<Rightarrow> (JObj (length h1), h1 @ [Obj (foldl (\<lambda>m (k, v). AList.update k v m) [] kvs)]))"
| "store_list [] h = ([], h)"
| "store_list (e # es) h =
     (case store_json e h of
        (v, h1) \<Rightarrow> (case store_list es h1 of (vs, h2) \<Rightarrow> (v # vs, h2)))"
| "store_members [] h = ([], h)"
| "store_members (m # ms) h =
     (case store_json (snd m) h of
        (v, h1) \<Rightarrow> (case store_members ms h1 of (kvs, h2) \<Rightarrow> ((fst m, v) # kvs, h2)))"

definition JSON_parse :: "jstring \<Rightarrow> heap \<Rightarrow> (jsval \<times> heap) option" where
  "JSON_parse text h = map_option (\<lambda>j. store_json j h) (parse_json text)"

subsection \<open>The library: \<^verbatim>\<open>_inferType\<close>, \<^verbatim>\<open>_unwrap\<close>, \<^verbatim>\<open>_getName\<close>\<close>

definition inferType :: "jsval \<Rightarrow> string" where
  "inferType v =
     (let type = typeof v in
      if v = JNull then ''null''
      else if v = JUndefined then ''undefined''
      else if type = ''number'' \<and> (case v of JNum n \<Rightarrow> isNaN_num n | _ \<Rightarrow> False) then ''nan''
      else if type = ''object'' \<and> Array_isArray v then ''array''
      else if type = ''object'' \<and> v = JDate then ''date''
      else if type = ''object'' \<and> v = JRegExp then ''regexp''
      else if type = ''object'' \<and> v = JMap then ''map''
      else if type = ''object'' \<and> v = JSet then ''set''
      else type)"

text \<open>
  The fields of an instance. They are assigned in the constructor only; afterwards an
  instance is a value, and the one thing that changes under it is the content of the
  array or object in the store that \<open>convertedValue\<close> refers to.
\<close>

record Options =
  stringLock :: bool
  boolLock :: bool
  typeLock :: bool

record FlexType =
  initialValue :: jsval
  name :: jstring
  options :: Options
  typeHistory :: "string list"
  inferredType :: string
  convertedValue :: jsval

text \<open>The defaults \<^verbatim>\<open>{stringLock: false, boolLock: false, typeLock: false}\<close>.\<close>

definition default_options :: Options where
  "default_options = \<lparr>stringLock = False, boolLock = False, typeLock = False\<rparr>"

text \<open>An operand of an operation is a raw value or an instance.\<close>

datatype operand = Raw jsval | Wrapped FlexType

definition unwrap :: "operand \<Rightarrow> jsval" where
  "unwrap v = (case v of Wrapped f \<Rightarrow> convertedValue f | Raw x \<Rightarrow> x)"

definition getName :: "operand \<Rightarrow> jstring" where
  "getName v = (case v of Wrapped f \<Rightarrow> name f | Raw _ \<Rightarrow> lit ''literal'')"

subsection \<open>The library: construction\<close>

text \<open>
  \<^verbatim>\<open>_recordTypeChange\<close>. On the empty history \<^verbatim>\<open>this._typeHistory[-1]\<close> is \<^verbatim>\<open>undefined\<close>,
  which differs from every tag, so the tag is pushed.
\<close>

definition recordTypeChange :: "string \<Rightarrow> FlexType \<Rightarrow> FlexType" where
  "recordTypeChange newType this =
     (let this1 = (if typeHistory this = [] \<or> last (typeHistory this) \<noteq> newType
                   then this\<lparr>typeHistory := typeHistory this @ [newType]\<rparr>
                   else this)
      in this1\<lparr>inferredType := newType\<rparr>)"

text \<open>
  \<^verbatim>\<open>_convertString\<close> returns the converted value together with the instance (whose
  history and tag it may have changed) and the store (in which \<^verbatim>\<open>JSON.parse\<close> may have
  created arrays and objects). A number that is not finite falls through to the JSON
  test, as in the source.
\<close>

definition convertString :: "jstring \<Rightarrow> FlexType \<Rightarrow> heap \<Rightarrow> jsval \<times> FlexType \<times> heap" where
  "convertString str this h =
     (if stringLock (options this) then (JStr str, this, h)
      else
        let trimmed = trim str in
        if trimmed = [] then (JStr str, this, h)
        else
          let lowerTrimmed = toLowerCase trimmed in
          if lowerTrimmed = lit ''true'' then (JBool True, recordTypeChange ''boolean'' this, h)
          else if lowerTrimmed = lit ''false'' then (JBool False, recordTypeChange ''boolean'' this, h)
          else if \<not> isNaN trimmed \<and> trimmed \<noteq> [] \<and> isFinite (Number_of trimmed)
            then (JNum (Number_of trimmed), recordTypeChange ''number'' this, h)
          else if (startsWith trimmed 0x7B \<and> endsWith trimmed 0x7D)
                \<or> (startsWith trimmed 0x5B \<and> endsWith trimmed 0x5D)
            then (case JSON_parse trimmed h of
                    Some (json, h') \<Rightarrow>
                      (json,
                       recordTypeChange (if Array_isArray json then ''array'' else ''object'') this,
                       h')
                  | None \<Rightarrow> (JStr str, this, h))
          else (JStr str, this, h))"

definition convertBoolean :: "bool \<Rightarrow> FlexType \<Rightarrow> jsval" where
  "convertBoolean bool this =
     (if boolLock (options this) then JNum (if bool then Fin 1 else Fin 0) else JBool bool)"

text \<open>
  \<^verbatim>\<open>_autoConvert\<close> dispatches on the tag of the instance. Its only caller is the
  constructor, where the tag is \<open>inferType value\<close>, so that the value is a string under
  the tag \<^verbatim>\<open>'string'\<close> and a boolean under \<^verbatim>\<open>'boolean'\<close>.
\<close>

definition autoConvert :: "jsval \<Rightarrow> FlexType \<Rightarrow> heap \<Rightarrow> jsval \<times> FlexType \<times> heap" where
  "autoConvert v this h =
     (if typeLock (options this) then (v, this, h)
      else if inferredType this = ''string'' then
        (case v of JStr str \<Rightarrow> convertString str this h | _ \<Rightarrow> (v, this, h))
      else if inferredType this = ''boolean'' then
        (case v of JBool bool \<Rightarrow> (convertBoolean bool this, this, h) | _ \<Rightarrow> (v, this, h))
      else (v, this, h))"

text \<open>The constructor \<^verbatim>\<open>new FlexType(value, name, options)\<close>.\<close>

definition new_FlexType :: "jsval \<Rightarrow> jstring \<Rightarrow> Options \<Rightarrow> heap \<Rightarrow> FlexType \<times> heap" where
  "new_FlexType v nm opts h =
     (let this0 = \<lparr>initialValue = v, name = nm, options = opts, typeHistory = [],
                   inferredType = inferType v, convertedValue = JUndefined\<rparr>
      in case autoConvert v this0 h of
           (cv, this1, h1) \<Rightarrow>
             (let this2 = this1\<lparr>convertedValue := cv\<rparr>
              in (recordTypeChange (inferredType this2) this2, h1)))"

text \<open>The factory \<^verbatim>\<open>flex(name, value, options)\<close>.\<close>

definition flex :: "jsval \<Rightarrow> jsval \<Rightarrow> Options \<Rightarrow> heap \<Rightarrow> FlexType outcome \<times> heap" where
  "flex nm v opts h =
     (if typeof nm \<noteq> ''string'' then (Throws (Error (lit ''Variable name must be a string'')), h)
      else case nm of
             JStr n \<Rightarrow> (case new_FlexType v n opts h of (this, h') \<Rightarrow> (Returns this, h'))
           | _ \<Rightarrow> (Unmodelled, h))"

subsection \<open>The library: locks, getters and type checks\<close>

definition strLock :: "FlexType \<Rightarrow> heap \<Rightarrow> FlexType \<times> heap" where
  "strLock this h =
     new_FlexType (initialValue this) (name this) ((options this)\<lparr>stringLock := True\<rparr>) h"

definition boolLock_op :: "FlexType \<Rightarrow> heap \<Rightarrow> FlexType \<times> heap" where
  "boolLock_op this h =
     new_FlexType (initialValue this) (name this) ((options this)\<lparr>boolLock := True\<rparr>) h"

definition typeLock_op :: "FlexType \<Rightarrow> heap \<Rightarrow> FlexType \<times> heap" where
  "typeLock_op this h =
     new_FlexType (initialValue this) (name this) ((options this)\<lparr>typeLock := True\<rparr>) h"

definition unlock :: "FlexType \<Rightarrow> heap \<Rightarrow> FlexType \<times> heap" where
  "unlock this h = new_FlexType (initialValue this) (name this) default_options h"

definition value' :: "FlexType \<Rightarrow> jsval" where
  "value' this = convertedValue this"

definition type' :: "FlexType \<Rightarrow> string" where
  "type' this = inferredType this"

definition isLocked :: "FlexType \<Rightarrow> bool" where
  "isLocked this \<longleftrightarrow>
     stringLock (options this) \<or> boolLock (options this) \<or> typeLock (options this)"

definition isString :: "FlexType \<Rightarrow> bool" where
  "isString this \<longleftrightarrow> inferredType this = ''string''"

definition isNumber :: "FlexType \<Rightarrow> bool" where
  "isNumber this \<longleftrightarrow> inferredType this = ''number''"

definition isBoolean :: "FlexType \<Rightarrow> bool" where
  "isBoolean this \<longleftrightarrow> inferredType this = ''boolean''"

definition isArray :: "FlexType \<Rightarrow> bool" where
  "isArray this \<longleftrightarrow> inferredType this = ''array''"

definition isObject :: "FlexType \<Rightarrow> bool" where
  "isObject this \<longleftrightarrow> inferredType this = ''object''"

text \<open>
  Every operation that produces an instance ends in \<^verbatim>\<open>new FlexType(result, name)\<close> with
  the default options; \<open>wrap\<close> is that last step, applied to the outcome of the
  computation of \<open>result\<close>.
\<close>

definition wrap :: "jsval outcome \<Rightarrow> jstring \<Rightarrow> heap \<Rightarrow> FlexType outcome \<times> heap" where
  "wrap r nm h =
     (case r of
        Returns v \<Rightarrow> (case new_FlexType v nm default_options h of (this, h') \<Rightarrow> (Returns this, h'))
      | Throws e \<Rightarrow> (Throws e, h)
      | Unmodelled \<Rightarrow> (Unmodelled, h))"

subsection \<open>The library: arithmetic\<close>

text \<open>The \<^verbatim>\<open>switch\<close> on the operator, and \<^verbatim>\<open>Math.max(0, Math.min(1, result))\<close>.\<close>

definition switch_operator :: "string \<Rightarrow> jsval \<Rightarrow> jsval \<Rightarrow> jsval outcome" where
  "switch_operator operator val1 otherValue =
     (if operator = ''+'' then js_add val1 otherValue
      else if operator = ''-'' then js_sub val1 otherValue
      else if operator = ''*'' then js_mul val1 otherValue
      else if operator = ''/'' then js_div val1 otherValue
      else Throws (Error (lit ''Unsupported operator: '' @ lit operator)))"

definition clamp01 :: "jsval \<Rightarrow> jsval outcome" where
  "clamp01 result = bind (Math_min (JNum (Fin 1)) result) (Math_max (JNum (Fin 0)))"

definition mathOperation :: "string \<Rightarrow> operand \<Rightarrow> FlexType \<Rightarrow> heap \<Rightarrow> FlexType outcome \<times> heap" where
  "mathOperation operator other this h =
     (let otherValue = unwrap other in
      if stringLock (options this) \<and> isString this then
        (Throws (Error (lit ''String locked variable '' @ [0x27] @ name this @ [0x27]
                        @ lit '' cannot be used in mathematical operations'')), h)
      else
        let val1 = (if boolLock (options this) \<and> isBoolean this
                    then JNum (if ToBoolean (value' this) then Fin 1 else Fin 0)
                    else convertedValue this);
            result = switch_operator operator val1 otherValue;
            result' = (if boolLock (options this) \<and> isBoolean this
                       then bind result clamp01 else result)
        in wrap result'
             (lit ''('' @ name this @ lit '' '' @ lit operator @ lit '' '' @ getName other @ lit '')'')
             h)"

definition add :: "operand \<Rightarrow> FlexType \<Rightarrow> heap \<Rightarrow> FlexType outcome \<times> heap" where
  "add other this h = mathOperation ''+'' other this h"

definition subtract :: "operand \<Rightarrow> FlexType \<Rightarrow> heap \<Rightarrow> FlexType outcome \<times> heap" where
  "subtract other this h = mathOperation ''-'' other this h"

definition multiply :: "operand \<Rightarrow> FlexType \<Rightarrow> heap \<Rightarrow> FlexType outcome \<times> heap" where
  "multiply other this h = mathOperation ''*'' other this h"

definition divide' :: "operand \<Rightarrow> FlexType \<Rightarrow> heap \<Rightarrow> FlexType outcome \<times> heap" where
  "divide' other this h = mathOperation ''/'' other this h"

subsection \<open>The library: \<^verbatim>\<open>charShift\<close>\<close>

text \<open>The loop over the code units of the string; \<open>result\<close> is the string built so far.\<close>

fun shiftChars :: "jsnum \<Rightarrow> jstring \<Rightarrow> jstring \<Rightarrow> jstring" where
  "shiftChars offset [] result = result"
| "shiftChars offset (c # cs) result =
     shiftChars offset cs (result @ String_fromCharCode (num_add (charCode c) offset))"

definition charShift :: "jsnum \<Rightarrow> FlexType \<Rightarrow> heap \<Rightarrow> FlexType outcome \<times> heap" where
  "charShift offset this h =
     (if \<not> isString this then
        (Throws (Error (lit ''charShift can only be used on string types. Current type: ''
                        @ lit (inferredType this))), h)
      else if stringLock (options this) then
        (Throws (Error (lit ''String locked variable '' @ [0x27] @ name this @ [0x27]
                        @ lit '' cannot use charShift'')), h)
      else case convertedValue this of
             JStr s \<Rightarrow>
               wrap (Returns (JStr (shiftChars offset s [])))
                 (lit ''charShift('' @ name this @ lit '', '' @ num_toString offset @ lit '')'') h
           | _ \<Rightarrow> (Unmodelled, h))"

subsection \<open>The library: \<^verbatim>\<open>get\<close>, \<^verbatim>\<open>set\<close>, \<^verbatim>\<open>push\<close>\<close>

text \<open>
  A property key is a string or a number (converted to its string). An array index is
  a canonical decimal numeral below \<open>2 ^ 32 - 1\<close>.
\<close>

definition property_key :: "jsval \<Rightarrow> jstring option" where
  "property_key p = (case p of JStr s \<Rightarrow> Some s | JNum n \<Rightarrow> Some (num_toString n) | _ \<Rightarrow> None)"

definition array_index :: "jstring \<Rightarrow> nat option" where
  "array_index k =
     (if all_digits k \<and> (length k = 1 \<or> hd k \<noteq> 0x30) \<and> digits_val 10 k < 2 ^ 32 - 1
      then Some (digits_val 10 k) else None)"

text \<open>The names that a plain object inherits from \<^verbatim>\<open>Object.prototype\<close>.\<close>

definition object_prototype_names :: "jstring list" where
  "object_prototype_names =
     map lit [''constructor'', ''__defineGetter__'', ''__defineSetter__'', ''hasOwnProperty'',
              ''__lookupGetter__'', ''__lookupSetter__'', ''isPrototypeOf'',
              ''propertyIsEnumerable'', ''toString'', ''valueOf'', ''__proto__'',
              ''toLocaleString'']"

text \<open>
  \<^verbatim>\<open>container[key]\<close>: an element or \<^verbatim>\<open>length\<close> of an array, an own member of an object,
  and \<^verbatim>\<open>undefined\<close> where the key names nothing. Inherited members are outside the model.
\<close>

definition property_get :: "heap \<Rightarrow> jsval \<Rightarrow> jstring \<Rightarrow> jsval outcome" where
  "property_get h c k =
     (case c of
        JArr r \<Rightarrow>
          (case arr_at h r of
             None \<Rightarrow> Unmodelled
           | Some xs \<Rightarrow>
               (case array_index k of
                  Some i \<Rightarrow> Returns (if i < length xs then xs ! i else JUndefined)
                | None \<Rightarrow>
                    if k = lit ''length'' then Returns (JNum (Fin (of_nat (length xs))))
                    else Unmodelled))
      | JObj r \<Rightarrow>
          (case obj_at h r of
             None \<Rightarrow> Unmodelled
           | Some ms \<Rightarrow>
               (case map_of ms k of
                  Some v \<Rightarrow> Returns v
                | None \<Rightarrow> if k \<in> set object_prototype_names then Unmodelled else Returns JUndefined))
      | _ \<Rightarrow> Unmodelled)"

definition get :: "jsval \<Rightarrow> FlexType \<Rightarrow> heap \<Rightarrow> FlexType outcome \<times> heap" where
  "get property this h =
     (if \<not> isArray this \<and> \<not> isObject this then
        (Throws (Error (lit ''get() can only be used on array or object types. Current type: ''
                        @ lit (inferredType this))), h)
      else case property_key property of
             None \<Rightarrow> (Unmodelled, h)
           | Some k \<Rightarrow>
               (let propValue = property_get h (convertedValue this) k
                in wrap propValue (name this @ lit ''.'' @ k) h))"

text \<open>
  \<^verbatim>\<open>container[key] = value\<close> on an existing element of an array, on the position just
  past its end, and on a member of an object; other assignments (to \<^verbatim>\<open>length\<close>, past the
  end, to \<^verbatim>\<open>__proto__\<close>) are outside the model.
\<close>

definition property_set :: "heap \<Rightarrow> jsval \<Rightarrow> jstring \<Rightarrow> jsval \<Rightarrow> heap option" where
  "property_set h c k v =
     (case c of
        JArr r \<Rightarrow>
          (case (arr_at h r, array_index k) of
             (Some xs, Some i) \<Rightarrow>
               if i < length xs then Some (h[r := Arr (xs[i := v])])
               else if i = length xs then Some (h[r := Arr (xs @ [v])])
               else None
           | _ \<Rightarrow> None)
      | JObj r \<Rightarrow>
          (case obj_at h r of
             Some ms \<Rightarrow>
               if k = lit ''__proto__'' then None
               else Some (h[r := Obj (AList.update k v ms)])
           | None \<Rightarrow> None)
      | _ \<Rightarrow> None)"

definition set' :: "jsval \<Rightarrow> operand \<Rightarrow> FlexType \<Rightarrow> heap \<Rightarrow> FlexType outcome \<times> heap" where
  "set' property v this h =
     (if \<not> isArray this \<and> \<not> isObject this then
        (Throws (Error (lit ''set() can only be used on array or object types. Current type: ''
                        @ lit (inferredType this))), h)
      else
        let newValue = unwrap v in
        case property_key property of
          None \<Rightarrow> (Unmodelled, h)
        | Some k \<Rightarrow>
            (case property_set h (convertedValue this) k newValue of
               None \<Rightarrow> (Unmodelled, h)
             | Some h' \<Rightarrow> (Returns this, h')))"

definition push :: "operand list \<Rightarrow> FlexType \<Rightarrow> heap \<Rightarrow> FlexType outcome \<times> heap" where
  "push items this h =
     (if \<not> isArray this then
        (Throws (Error (lit ''push() can only be used on array types. Current type: ''
                        @ lit (inferredType this))), h)
      else
        let unwrappedItems = map unwrap items in
        case convertedValue this of
          JArr r \<Rightarrow>
            (case arr_at h r of
               Some xs \<Rightarrow> (Returns this, h[r := Arr (xs @ unwrappedItems)])
             | None \<Rightarrow> (Unmodelled, h))
        | _ \<Rightarrow> (Unmodelled, h))"

subsection \<open>The library: conversions\<close>

definition toString :: "FlexType \<Rightarrow> heap \<Rightarrow> FlexType outcome \<times> heap" where
  "toString this h =
     wrap (bind (ToString (convertedValue this)) (\<lambda>s. Returns (JStr s)))
       (lit ''String('' @ name this @ lit '')'') h"

definition toNumber :: "FlexType \<Rightarrow> heap \<Rightarrow> FlexType outcome \<times> heap" where
  "toNumber this h =
     wrap (bind (ToNumber (convertedValue this)) (\<lambda>n. Returns (JNum n)))
       (lit ''Number('' @ name this @ lit '')'') h"

definition toBoolean :: "FlexType \<Rightarrow> heap \<Rightarrow> FlexType outcome \<times> heap" where
  "toBoolean this h =
     wrap (Returns (JBool (ToBoolean (convertedValue this))))
       (lit ''Boolean('' @ name this @ lit '')'') h"

subsection \<open>Notions used in the statements\<close>

text \<open>A Number in the closed range from 0 to 1.\<close>

definition in_unit_range :: "jsnum \<Rightarrow> bool" where
  "in_unit_range n = (case n of Fin q \<Rightarrow> 0 \<le> q \<and> q \<le> 1 | _ \<Rightarrow> False)"

text \<open>
  The coercion of a string as the specification words it: trim; empty stays a string;
  a case-insensitive exact match with \<^verbatim>\<open>true\<close> or \<^verbatim>\<open>false\<close> gives the boolean; a text that
  parses fully as a finite number gives that number; a text delimited by braces or by
  brackets is parsed as JSON and gives the parsed array or object, or the original
  string when the parse fails; any other string is left unchanged. The result is the
  value with its tag, and the store.
\<close>

definition same_letter :: "jchar \<Rightarrow> jchar \<Rightarrow> bool" where
  "same_letter c d \<longleftrightarrow> c = d \<or> (0x61 \<le> d \<and> d \<le> 0x7A \<and> c = d - 0x20)"

definition matches_ignoring_case :: "jstring \<Rightarrow> string \<Rightarrow> bool" where
  "matches_ignoring_case s w \<longleftrightarrow> list_all2 same_letter s (lit w)"

definition finite_number :: "jstring \<Rightarrow> jsnum option" where
  "finite_number t =
     (case StringToNumber t of NaN \<Rightarrow> None | PInf \<Rightarrow> None | NInf \<Rightarrow> None | n \<Rightarrow> Some n)"

definition bracket_delimited :: "jstring \<Rightarrow> bool" where
  "bracket_delimited t \<longleftrightarrow>
     (case t of [] \<Rightarrow> False
      | c # _ \<Rightarrow> (c = 0x7B \<and> last t = 0x7D) \<or> (c = 0x5B \<and> last t = 0x5D))"

definition spec_coerce :: "jstring \<Rightarrow> heap \<Rightarrow> (jsval \<times> string) \<times> heap" where
  "spec_coerce str h =
     (let t = trim str in
      if t = [] then ((JStr str, ''string''), h)
      else if matches_ignoring_case t ''true'' then ((JBool True, ''boolean''), h)
      else if matches_ignoring_case t ''false'' then ((JBool False, ''boolean''), h)
      else case finite_number t of
        Some n \<Rightarrow> ((JNum n, ''number''), h)
      | None \<Rightarrow>
          if bracket_delimited t then
            (case JSON_parse t h of
               Some (JArr r, h') \<Rightarrow> ((JArr r, ''array''), h')
             | Some (JObj r, h') \<Rightarrow> ((JObj r, ''object''), h')
             | _ \<Rightarrow> ((JStr str, ''string''), h))
          else ((JStr str, ''string''), h))"

definition is_container :: "json \<Rightarrow> bool" where
  "is_container j = (case j of JsArr _ \<Rightarrow> True | JsObj _ \<Rightarrow> True | _ \<Rightarrow> False)"

text \<open>The unlocked instance that wraps the string \<open>s\<close> under the name \<open>nm\<close>.\<close>

definition string_instance :: "jstring \<Rightarrow> jstring \<Rightarrow> FlexType" where
  "string_instance s nm =
     \<lparr>initialValue = JStr s, name = nm, options = default_options,
      typeHistory = [''string''], inferredType = ''string'', convertedValue = JStr s\<rparr>"

text \<open>
  The finite Number values: zero, and the rationals that rounding to binary64 leaves
  unchanged.
\<close>

definition is_double :: "rat \<Rightarrow> bool" where
  "is_double q \<longleftrightarrow> q = 0 \<or> fl \<bar>q\<bar> = Fin \<bar>q\<bar>"

definition finite_Number :: "jsnum \<Rightarrow> bool" where
  "finite_Number n = (case n of Fin q \<Rightarrow> is_double q | NZero \<Rightarrow> True | _ \<Rightarrow> False)"

text \<open>
  The clamp as the specification words it: a result below 0 becomes 0, a result above 1
  becomes 1, a result in the closed range from 0 to 1 is kept (\<open>-0\<close> becomes \<open>+0\<close>), and
  not-a-number stays not-a-number.
\<close>

definition clamp_unit :: "jsnum \<Rightarrow> jsnum" where
  "clamp_unit r =
     (case r of NaN \<Rightarrow> NaN | PInf \<Rightarrow> Fin 1 | NInf \<Rightarrow> Fin 0 | NZero \<Rightarrow> Fin 0
      | Fin q \<Rightarrow> if q < 0 then Fin 0 else if 1 < q then Fin 1 else Fin q)"

text \<open>The unlocked instance that wraps the number \<open>n\<close> under the name \<open>nm\<close>.\<close>

definition number_instance :: "jsnum \<Rightarrow> jstring \<Rightarrow> FlexType" where
  "number_instance n nm =
     \<lparr>initialValue = JNum n, name = nm, options = default_options,
      typeHistory = [if n = NaN then ''nan'' else ''number''],
      inferredType = (if n = NaN then ''nan'' else ''number''), convertedValue = JNum n\<rparr>"

text \<open>The left operand of a boolean under \<open>boolLock\<close>: 1 if the value is truthy, else 0.\<close>

definition truth_number :: "FlexType \<Rightarrow> jsnum" where
  "truth_number this = (if ToBoolean (convertedValue this) then Fin 1 else Fin 0)"

text \<open>The name of a result: \<^verbatim>\<open>(name operator other)\<close>.\<close>

definition operation_name :: "FlexType \<Rightarrow> string \<Rightarrow> operand \<Rightarrow> jstring" where
  "operation_name this operator other =
     lit ''('' @ name this @ lit '' '' @ lit operator @ lit '' '' @ getName other @ lit '')''"

section \<open>Properties\<close>

subsection \<open>Evaluation and basic facts\<close>

lemma floor_rat_numeral_div [simp]:
  "\<lfloor>numeral a / numeral b :: rat\<rfloor> = numeral a div numeral b"
  by (metis floor_divide_of_int_eq of_int_numeral)

lemma ceiling_rat_numeral_div [simp]:
  "\<lceil>numeral a / numeral b :: rat\<rceil> = - (- numeral a div numeral b)"
  by (metis ceiling_def floor_divide_of_int_eq minus_divide_left of_int_minus of_int_numeral)

lemmas eval_string = lit_def trim_def is_ws_def toLowerCase_def lower_char_def
  startsWith_def endsWith_def

lemmas eval_number = blen.simps ilog2_def rne_def fl_def num_neg_def fl_signed_def
  is_negative_def is_zero_def is_inf_def magnitude_def with_sign_def isNaN_num_def
  isFinite_num_def num_add_def num_sub_def num_mul_def num_div_def num_less_def
  num_max_def num_min_def

lemmas eval_parse = char_digit_def is_digit_in_def is_digit_def digits_val_def all_digits_def
  parse_signed_integer_def parse_exponent_def parse_unsigned_decimal_def radix_prefix_def
  num_of_mv_def StringToNumber_def isNaN_def Number_of_def isFinite_def

lemmas eval_construct = new_FlexType_def autoConvert_def convertString_def convertBoolean_def
  recordTypeChange_def inferType_def typeof_def Array_isArray_def default_options_def flex_def

lemmas eval_math = add_def subtract_def multiply_def divide'_def mathOperation_def
  switch_operator_def clamp01_def js_add_def js_sub_def js_mul_def js_div_def Math_min_def
  Math_max_def numeric_op_def bind_def ToNumber_def ToString_def ToBoolean_def is_string_def
  unwrap_def getName_def wrap_def isString_def isNumber_def isBoolean_def value'_def

lemmas eval_json = is_word_char_def json_number_ok_def finish_word_def idle_step_def
  escape_char_def complete_def value_tok_def close_arr_def close_obj_def key_tok_def
  pstep_def parse_json_def JSON_parse_def AList.update.simps

lemmas eval_tostring = dlen.simps dec_digits.simps digit_char_def dexp_def dec_value_def
  cand_lo_def cand_hi_def rounds_to_def closer_lo_def pick_def shortest.simps fmt_def
  pos_toString_def num_toString_def

lemmas eval_charShift = charShift_def String_fromCharCode_def charCode_def ToUint16_def
  truncate_rat_def

lemmas eval_collection = get_def push_def property_key_def array_index_def property_get_def
  arr_at_def obj_at_def object_prototype_names_def isArray_def isObject_def

lemma recordTypeChange_fields [simp]:
  "initialValue (recordTypeChange t this) = initialValue this"
  "name (recordTypeChange t this) = name this"
  "options (recordTypeChange t this) = options this"
  "convertedValue (recordTypeChange t this) = convertedValue this"
  "inferredType (recordTypeChange t this) = t"
  by (simp_all add: recordTypeChange_def Let_def)

lemma recordTypeChange_empty:
  "typeHistory this = [] \<Longrightarrow> typeHistory (recordTypeChange t this) = [t]"
  by (simp add: recordTypeChange_def Let_def)

lemma inferType_string: "inferType v = ''string'' \<longleftrightarrow> (\<exists>s. v = JStr s)"
  by (cases v) (auto simp: inferType_def typeof_def Array_isArray_def Let_def)

lemma inferType_boolean: "inferType v = ''boolean'' \<longleftrightarrow> (\<exists>b. v = JBool b)"
  by (cases v) (auto simp: inferType_def typeof_def Array_isArray_def Let_def)

subsection \<open>The type history after construction\<close>

text \<open>
  \<open>convertString\<close> starts from the empty history. Either it leaves the history empty and
  the tag as it was, or it has recorded exactly the new tag.
\<close>

lemma convertString_history:
  assumes "typeHistory this = []" and "convertString str this h = (cv, this', h')"
  shows "(typeHistory this' = [] \<and> inferredType this' = inferredType this)
         \<or> typeHistory this' = [inferredType this']"
  using assms
  by (auto simp: convertString_def Let_def recordTypeChange_empty
           split: if_splits option.splits prod.splits)

lemma autoConvert_history:
  assumes "typeHistory this = []" and "autoConvert v this h = (cv, this', h')"
  shows "(typeHistory this' = [] \<and> inferredType this' = inferredType this)
         \<or> typeHistory this' = [inferredType this']"
  using assms convertString_history[of this]
  by (auto simp: autoConvert_def split: if_splits jsval.splits)

text \<open>
  The constructor records the tag once more at its end, when the tag is already the
  one after coercion: the history of every new instance is that single tag.
\<close>

lemma construction_history_singleton:
  assumes "new_FlexType v nm opts h = (this, h')"
  shows "typeHistory this = [inferredType this]"
proof -
  let ?this0 = "\<lparr>initialValue = v, name = nm, options = opts, typeHistory = [],
                   inferredType = inferType v, convertedValue = JUndefined\<rparr>"
  obtain cv this1 h1 where ac: "autoConvert v ?this0 h = (cv, this1, h1)"
    by (cases "autoConvert v ?this0 h") auto
  from assms ac have this_eq:
    "this = recordTypeChange (inferredType this1) (this1\<lparr>convertedValue := cv\<rparr>)"
    by (simp add: new_FlexType_def Let_def)
  from autoConvert_history[OF _ ac]
  have "(typeHistory this1 = [] \<and> inferredType this1 = inferType v)
        \<or> typeHistory this1 = [inferredType this1]" by simp
  then show ?thesis
    by (auto simp: this_eq recordTypeChange_def Let_def)
qed

text \<open>
  C1. The claim: the history starts with the tag of the raw input and gets a further
  entry when the coercion changes the type, so that the string \<^verbatim>\<open>'42'\<close> has the history
  \<^verbatim>\<open>['string', 'number']\<close>. The code: the raw input \<^verbatim>\<open>'42'\<close> has the tag \<^verbatim>\<open>'string'\<close>, and
  \<^verbatim>\<open>flex('x', '42')\<close> is the instance with value 42, tag \<^verbatim>\<open>'number'\<close> and the history
  \<^verbatim>\<open>['number']\<close>, in which the tag of the raw input does not occur.
\<close>

theorem history_of_coerced_string:
  "inferType (JStr (lit ''42'')) = ''string'' \<and>
   flex (JStr (lit ''x'')) (JStr (lit ''42'')) default_options [] =
     (Returns \<lparr>initialValue = JStr (lit ''42''), name = lit ''x'', options = default_options,
        typeHistory = [''number''], inferredType = ''number'',
        convertedValue = JNum (Fin 42)\<rparr>, [])"
  by (simp add: eval_construct eval_string eval_parse eval_number Let_def)

subsection \<open>Locks at construction\<close>

text \<open>
  C3. For every input value, name, store and options with \<open>typeLock\<close> set, the
  constructor attempts no coercion: the converted value is the raw value, the tag is
  the one inferred from the raw value, and the history is that one tag.
\<close>

theorem typeLock_no_coercion:
  "typeLock opts \<Longrightarrow>
   new_FlexType v nm opts h =
     (\<lparr>initialValue = v, name = nm, options = opts, typeHistory = [inferType v],
       inferredType = inferType v, convertedValue = v\<rparr>, h)"
  by (simp add: new_FlexType_def autoConvert_def recordTypeChange_def Let_def)

theorem typeLock_no_coercion_witness:
  "typeLock \<lparr>stringLock = False, boolLock = False, typeLock = True\<rparr> \<and>
   new_FlexType (JStr (lit ''42'')) (lit ''x'')
       \<lparr>stringLock = False, boolLock = False, typeLock = True\<rparr> [] =
     (\<lparr>initialValue = JStr (lit ''42''), name = lit ''x'',
       options = \<lparr>stringLock = False, boolLock = False, typeLock = True\<rparr>,
       typeHistory = [''string''], inferredType = ''string'',
       convertedValue = JStr (lit ''42'')\<rparr>, [])"
  using typeLock_no_coercion
          [of "\<lparr>stringLock = False, boolLock = False, typeLock = True\<rparr>"
              "JStr (lit ''42'')" "lit ''x''" "[]"]
  by (simp add: inferType_def typeof_def Array_isArray_def)

text \<open>
  C7, as stated, for every raw boolean constructed with \<open>boolLock\<close> set: the converted
  value is the number 1 or 0. It fails when \<open>typeLock\<close> is set as well, since the guard
  of \<^verbatim>\<open>_autoConvert\<close> returns the raw value first:
  \<^verbatim>\<open>new FlexType(true, 'x', {boolLock: true, typeLock: true})\<close> holds the boolean \<^verbatim>\<open>true\<close>.
\<close>

theorem boolLock_under_typeLock_keeps_boolean:
  "boolLock \<lparr>stringLock = False, boolLock = True, typeLock = True\<rparr> \<and>
   convertedValue (fst (new_FlexType (JBool True) (lit ''x'')
       \<lparr>stringLock = False, boolLock = True, typeLock = True\<rparr> [])) = JBool True"
  by (simp add: new_FlexType_def autoConvert_def Let_def)

text \<open>
  C7, amended: for a raw boolean constructed with \<open>boolLock\<close> set and \<open>typeLock\<close> not set,
  the converted value is the number 1 (for true) or 0 (for false), the tag stays
  \<^verbatim>\<open>'boolean'\<close>, \<^verbatim>\<open>isBoolean()\<close> holds and the history is \<^verbatim>\<open>['boolean']\<close>.
\<close>

theorem boolLock_boolean_construction:
  "boolLock opts \<Longrightarrow> \<not> typeLock opts \<Longrightarrow>
   new_FlexType (JBool b) nm opts h =
     (\<lparr>initialValue = JBool b, name = nm, options = opts, typeHistory = [''boolean''],
       inferredType = ''boolean'', convertedValue = JNum (if b then Fin 1 else Fin 0)\<rparr>, h)
   \<and> isBoolean (fst (new_FlexType (JBool b) nm opts h))"
  by (simp add: eval_construct isBoolean_def Let_def)

theorem boolLock_boolean_construction_witness:
  "boolLock \<lparr>stringLock = False, boolLock = True, typeLock = False\<rparr> \<and>
   \<not> typeLock \<lparr>stringLock = False, boolLock = True, typeLock = False\<rparr> \<and>
   new_FlexType (JBool True) (lit ''x'')
       \<lparr>stringLock = False, boolLock = True, typeLock = False\<rparr> [] =
     (\<lparr>initialValue = JBool True, name = lit ''x'',
       options = \<lparr>stringLock = False, boolLock = True, typeLock = False\<rparr>,
       typeHistory = [''boolean''], inferredType = ''boolean'',
       convertedValue = JNum (Fin 1)\<rparr>, [])
   \<and> isBoolean (fst (new_FlexType (JBool True) (lit ''x'')
       \<lparr>stringLock = False, boolLock = True, typeLock = False\<rparr> []))"
  using boolLock_boolean_construction
          [of "\<lparr>stringLock = False, boolLock = True, typeLock = False\<rparr>" True "lit ''x''" "[]"]
  by (simp add: isBoolean_def)

subsection \<open>Arithmetic\<close>

text \<open>
  C4. For every instance whose \<open>stringLock\<close> option is set and whose tag is \<^verbatim>\<open>'string'\<close>,
  each of \<^verbatim>\<open>add\<close>, \<^verbatim>\<open>subtract\<close>, \<^verbatim>\<open>multiply\<close> and \<^verbatim>\<open>divide\<close> throws an error whose message
  contains the name of the instance, whatever the operand, and leaves the store as it
  was; the instance itself is not assigned to.
\<close>

theorem stringLock_math_throws:
  assumes "stringLock (options this)" and "isString this"
  defines "msg \<equiv> lit ''String locked variable '' @ [0x27] @ name this @ [0x27]
                  @ lit '' cannot be used in mathematical operations''"
  shows "add other this h = (Throws (Error msg), h)
       \<and> subtract other this h = (Throws (Error msg), h)
       \<and> multiply other this h = (Throws (Error msg), h)
       \<and> divide' other this h = (Throws (Error msg), h)
       \<and> sublist (name this) msg"
proof -
  have "sublist (name this) msg"
    unfolding msg_def sublist_def by (metis append.assoc)
  with assms show ?thesis
    by (simp add: add_def subtract_def multiply_def divide'_def mathOperation_def Let_def)
qed

theorem stringLock_math_throws_witness:
  "stringLock (options (fst (new_FlexType (JStr (lit ''42'')) (lit ''x'')
       \<lparr>stringLock = True, boolLock = False, typeLock = False\<rparr> [])))
   \<and> isString (fst (new_FlexType (JStr (lit ''42'')) (lit ''x'')
       \<lparr>stringLock = True, boolLock = False, typeLock = False\<rparr> []))
   \<and> add (Raw (JNum (Fin 1)))
         (fst (new_FlexType (JStr (lit ''42'')) (lit ''x'')
            \<lparr>stringLock = True, boolLock = False, typeLock = False\<rparr> [])) [] =
       (Throws (Error (lit ''String locked variable '' @ [0x27] @ lit ''x'' @ [0x27]
                       @ lit '' cannot be used in mathematical operations'')), [])
   \<and> sublist (lit ''x'')
         (lit ''String locked variable '' @ [0x27] @ lit ''x'' @ [0x27]
          @ lit '' cannot be used in mathematical operations'')"
proof -
  let ?inst = "fst (new_FlexType (JStr (lit ''42'')) (lit ''x'')
                 \<lparr>stringLock = True, boolLock = False, typeLock = False\<rparr> [])"
  have this_eq: "?inst = \<lparr>initialValue = JStr (lit ''42''), name = lit ''x'',
       options = \<lparr>stringLock = True, boolLock = False, typeLock = False\<rparr>,
       typeHistory = [''string''], inferredType = ''string'',
       convertedValue = JStr (lit ''42'')\<rparr>"
    by (simp add: eval_construct Let_def)
  have locked: "stringLock (options ?inst)" and str: "isString ?inst"
    by (simp_all add: this_eq isString_def)
  from stringLock_math_throws[OF locked str, of "Raw (JNum (Fin 1))" "[]"] locked str
  show ?thesis by (simp add: this_eq)
qed

text \<open>Numbers, arrays and objects are not coerced by the constructor.\<close>

lemma inferType_number: "inferType (JNum n) = (if n = NaN then ''nan'' else ''number'')"
  by (simp add: inferType_def typeof_def Array_isArray_def isNaN_num_def)

lemma new_FlexType_number:
  "new_FlexType (JNum n) nm opts h =
     (\<lparr>initialValue = JNum n, name = nm, options = opts, typeHistory = [inferType (JNum n)],
       inferredType = inferType (JNum n), convertedValue = JNum n\<rparr>, h)"
  by (cases n) (simp_all add: eval_construct isNaN_num_def Let_def)

lemma wrap_number:
  "wrap (Returns (JNum n)) nm h =
     (Returns \<lparr>initialValue = JNum n, name = nm, options = default_options,
        typeHistory = [inferType (JNum n)], inferredType = inferType (JNum n),
        convertedValue = JNum n\<rparr>, h)"
  by (simp add: wrap_def new_FlexType_number)

lemma wrap_array:
  "wrap (Returns (JArr r)) nm h =
     (Returns \<lparr>initialValue = JArr r, name = nm, options = default_options,
        typeHistory = [''array''], inferredType = ''array'', convertedValue = JArr r\<rparr>, h)"
  by (simp add: wrap_def eval_construct Let_def)

lemma wrap_object:
  "wrap (Returns (JObj r)) nm h =
     (Returns \<lparr>initialValue = JObj r, name = nm, options = default_options,
        typeHistory = [''object''], inferredType = ''object'', convertedValue = JObj r\<rparr>, h)"
  by (simp add: wrap_def eval_construct Let_def)

text \<open>The two shapes of \<^verbatim>\<open>_mathOperation\<close> when it does not throw on a locked string.\<close>

lemma mathOperation_boolLock:
  assumes "boolLock (options this)" and "isBoolean this"
  shows "mathOperation operator other this h =
     wrap (bind (switch_operator operator
                   (JNum (if ToBoolean (convertedValue this) then Fin 1 else Fin 0))
                   (unwrap other)) clamp01)
       (lit ''('' @ name this @ lit '' '' @ lit operator @ lit '' '' @ getName other @ lit '')'') h"
  using assms by (simp add: mathOperation_def Let_def isString_def isBoolean_def value'_def)

lemma mathOperation_plain:
  assumes "\<not> (boolLock (options this) \<and> isBoolean this)"
    and "\<not> (stringLock (options this) \<and> isString this)"
  shows "mathOperation operator other this h =
     wrap (switch_operator operator (convertedValue this) (unwrap other))
       (lit ''('' @ name this @ lit '' '' @ lit operator @ lit '' '' @ getName other @ lit '')'') h"
  using assms by (auto simp add: mathOperation_def Let_def)

text \<open>\<^verbatim>\<open>Math.max(0, Math.min(1, x))\<close> is not-a-number or lies between 0 and 1.\<close>

lemma num_min_max_range:
  "num_max (Fin 0) (num_min (Fin 1) x) = NaN \<or> in_unit_range (num_max (Fin 0) (num_min (Fin 1) x))"
  by (cases x) (auto simp: num_max_def num_min_def num_less_def in_unit_range_def)

lemma clamp01_range:
  assumes "clamp01 r = Returns v"
  shows "\<exists>n. v = JNum n \<and> (n = NaN \<or> in_unit_range n)"
proof -
  from assms obtain x where "ToNumber r = Returns x"
    and v: "v = JNum (num_max (Fin 0) (num_min (Fin 1) x))"
    by (auto simp: clamp01_def Math_min_def Math_max_def numeric_op_def bind_def ToNumber_def
             split: outcome.splits jsval.splits)
  with num_min_max_range[of x] show ?thesis by auto
qed

lemma boolLock_math_range:
  assumes "boolLock (options this)" and "isBoolean this"
    and ret: "mathOperation operator other this h = (Returns inst, h')"
  shows "\<exists>n. convertedValue inst = JNum n \<and> (n = NaN \<or> in_unit_range n)"
proof -
  let ?nm = "lit ''('' @ name this @ lit '' '' @ lit operator @ lit '' '' @ getName other
              @ lit '')''"
  let ?R = "bind (switch_operator operator
                    (JNum (if ToBoolean (convertedValue this) then Fin 1 else Fin 0))
                    (unwrap other)) clamp01"
  from ret mathOperation_boolLock[OF assms(1,2)]
  have w: "wrap ?R ?nm h = (Returns inst, h')" by simp
  then obtain v where R: "?R = Returns v"
    by (cases ?R) (auto simp: wrap_def)
  then obtain r where "clamp01 r = Returns v"
    by (auto simp: bind_def split: outcome.splits)
  from clamp01_range[OF this] obtain n where v: "v = JNum n" and rng: "n = NaN \<or> in_unit_range n"
    by blast
  from w R v have "convertedValue inst = JNum n"
    by (simp add: wrap_number) (metis FlexType.select_convs(6))
  with rng show ?thesis by blast
qed

text \<open>
  The clamp of the source agrees with the specification's wording, and the result of
  each operator on a boolean under \<open>boolLock\<close> is explicit.
\<close>

lemma num_clamp: "num_max (Fin 0) (num_min (Fin 1) x) = clamp_unit x"
  by (cases x) (auto simp: num_max_def num_min_def num_less_def clamp_unit_def)

lemma clamp01_number: "clamp01 (JNum x) = Returns (JNum (clamp_unit x))"
  by (simp add: clamp01_def Math_min_def Math_max_def numeric_op_def bind_def ToNumber_def
        num_clamp)

lemma clamp01_string: "clamp01 (JStr s) = Returns (JNum (clamp_unit (StringToNumber s)))"
  by (simp add: clamp01_def Math_min_def Math_max_def numeric_op_def bind_def ToNumber_def
        num_clamp)

lemma wrap_number_instance:
  "wrap (Returns (JNum n)) nm h = (Returns (number_instance n nm), h)"
  by (simp add: wrap_number inferType_number number_instance_def)

lemma num_toString_bit:
  "num_toString (Fin 1) = lit ''1''" "num_toString (Fin 0) = lit ''0''"
  by (simp_all add: eval_tostring eval_number lit_def)

lemma boolLock_numeric:
  assumes "boolLock (options this)" and "isBoolean this"
    and "ToNumber (unwrap other) = Returns y"
  shows "subtract other this h =
           (Returns (number_instance (clamp_unit (num_sub (truth_number this) y))
                       (operation_name this ''-'' other)), h)"
    and "multiply other this h =
           (Returns (number_instance (clamp_unit (num_mul (truth_number this) y))
                       (operation_name this ''*'' other)), h)"
    and "divide' other this h =
           (Returns (number_instance (clamp_unit (num_div (truth_number this) y))
                       (operation_name this ''/'' other)), h)"
    and "\<not> is_string (unwrap other) \<Longrightarrow> add other this h =
           (Returns (number_instance (clamp_unit (num_add (truth_number this) y))
                       (operation_name this ''+'' other)), h)"
  using assms(3)
  by (simp_all add: subtract_def multiply_def divide'_def add_def
        mathOperation_boolLock[OF assms(1,2)] switch_operator_def js_sub_def js_mul_def
        js_div_def js_add_def numeric_op_def bind_def ToNumber_def is_string_def
        clamp01_number wrap_number_instance truth_number_def operation_name_def)

lemma boolLock_concat:
  assumes "boolLock (options this)" and "isBoolean this" and "unwrap other = JStr s"
  shows "add other this h =
           (Returns (number_instance
                       (clamp_unit (StringToNumber
                          ((if ToBoolean (convertedValue this) then lit ''1'' else lit ''0'') @ s)))
                       (operation_name this ''+'' other)), h)"
  by (simp add: add_def mathOperation_boolLock[OF assms(1,2)] switch_operator_def js_add_def
        bind_def ToString_def is_string_def assms(3) num_toString_bit
        clamp01_string wrap_number_instance operation_name_def)

lemma clamp_unit_range:
  "(clamp_unit r = NaN \<longleftrightarrow> r = NaN)"
  "r \<noteq> NaN \<Longrightarrow> in_unit_range (clamp_unit r)"
  "in_unit_range r \<Longrightarrow> clamp_unit r = r"
  by (cases r; auto simp: clamp_unit_def in_unit_range_def)+

text \<open>The instances of the example \<^verbatim>\<open>flex('x', true).boolLock().subtract(1).toBoolean()\<close>.\<close>

lemma example_flex_true:
  "flex (JStr (lit ''x'')) (JBool True) default_options [] =
     (Returns \<lparr>initialValue = JBool True, name = lit ''x'', options = default_options,
        typeHistory = [''boolean''], inferredType = ''boolean'',
        convertedValue = JBool True\<rparr>, [])"
  by (simp add: eval_construct Let_def)

lemma example_boolLock:
  "boolLock_op \<lparr>initialValue = JBool True, name = lit ''x'', options = default_options,
        typeHistory = [''boolean''], inferredType = ''boolean'',
        convertedValue = JBool True\<rparr> [] =
     (\<lparr>initialValue = JBool True, name = lit ''x'',
       options = \<lparr>stringLock = False, boolLock = True, typeLock = False\<rparr>,
       typeHistory = [''boolean''], inferredType = ''boolean'',
       convertedValue = JNum (Fin 1)\<rparr>, [])"
  by (simp add: boolLock_op_def eval_construct Let_def)

lemma example_subtract:
  "subtract (Raw (JNum (Fin 1)))
     \<lparr>initialValue = JBool True, name = lit ''x'',
       options = \<lparr>stringLock = False, boolLock = True, typeLock = False\<rparr>,
       typeHistory = [''boolean''], inferredType = ''boolean'',
       convertedValue = JNum (Fin 1)\<rparr> [] =
   (Returns \<lparr>initialValue = JNum (Fin 0), name = lit ''(x - literal)'',
      options = default_options, typeHistory = [''number''], inferredType = ''number'',
      convertedValue = JNum (Fin 0)\<rparr>, [])"
  by (simp add: eval_construct eval_math eval_number eval_string Let_def)

lemma example_toBoolean:
  "toBoolean \<lparr>initialValue = JNum (Fin 0), name = lit ''(x - literal)'',
      options = default_options, typeHistory = [''number''], inferredType = ''number'',
      convertedValue = JNum (Fin 0)\<rparr> [] =
   (Returns \<lparr>initialValue = JBool False, name = lit ''Boolean((x - literal))'',
      options = default_options, typeHistory = [''boolean''], inferredType = ''boolean'',
      convertedValue = JBool False\<rparr>, [])"
  by (simp add: eval_construct eval_math eval_number eval_string toBoolean_def Let_def)

text \<open>Results that leave the range, and one that stays in it.\<close>

lemma example_add_half:
  "add (Raw (JNum (Fin (1 / 2))))
         \<lparr>initialValue = JBool True, name = lit ''x'',
           options = \<lparr>stringLock = False, boolLock = True, typeLock = False\<rparr>,
           typeHistory = [''boolean''], inferredType = ''boolean'',
           convertedValue = JNum (Fin 1)\<rparr> [] =
       (Returns \<lparr>initialValue = JNum (Fin 1), name = lit ''(x + literal)'',
          options = default_options, typeHistory = [''number''], inferredType = ''number'',
          convertedValue = JNum (Fin 1)\<rparr>, [])"
  by (simp add: eval_construct eval_math eval_number eval_string Let_def)

lemma example_subtract_three:
  "subtract (Raw (JNum (Fin 3)))
         \<lparr>initialValue = JBool True, name = lit ''x'',
           options = \<lparr>stringLock = False, boolLock = True, typeLock = False\<rparr>,
           typeHistory = [''boolean''], inferredType = ''boolean'',
           convertedValue = JNum (Fin 1)\<rparr> [] =
       (Returns \<lparr>initialValue = JNum (Fin 0), name = lit ''(x - literal)'',
          options = default_options, typeHistory = [''number''], inferredType = ''number'',
          convertedValue = JNum (Fin 0)\<rparr>, [])"
  by (simp add: eval_construct eval_math eval_number eval_string Let_def)

lemma example_multiply_half:
  "multiply (Raw (JNum (Fin (1 / 2))))
         \<lparr>initialValue = JBool True, name = lit ''x'',
           options = \<lparr>stringLock = False, boolLock = True, typeLock = False\<rparr>,
           typeHistory = [''boolean''], inferredType = ''boolean'',
           convertedValue = JNum (Fin 1)\<rparr> [] =
       (Returns \<lparr>initialValue = JNum (Fin (1 / 2)), name = lit ''(x * literal)'',
          options = default_options, typeHistory = [''number''], inferredType = ''number'',
          convertedValue = JNum (Fin (1 / 2))\<rparr>, [])"
  by (simp add: eval_construct eval_math eval_number eval_string Let_def)

text \<open>
  C5, as stated: with \<open>boolLock\<close> set and the tag \<^verbatim>\<open>'boolean'\<close>, every arithmetic result is
  clamped into the closed range from 0 to 1. It fails where the result is not-a-number:
  \<^verbatim>\<open>flex('x', false, {boolLock: true}).divide(0)\<close> computes \<^verbatim>\<open>0 / 0\<close>, and
  \<^verbatim>\<open>Math.max(0, Math.min(1, NaN))\<close> is \<^verbatim>\<open>NaN\<close>, which is the wrapped value.
\<close>

theorem boolLock_division_yields_nan:
  "boolLock (options (fst (new_FlexType (JBool False) (lit ''x'')
       \<lparr>stringLock = False, boolLock = True, typeLock = False\<rparr> [])))
   \<and> isBoolean (fst (new_FlexType (JBool False) (lit ''x'')
       \<lparr>stringLock = False, boolLock = True, typeLock = False\<rparr> []))
   \<and> divide' (Raw (JNum (Fin 0)))
         (fst (new_FlexType (JBool False) (lit ''x'')
            \<lparr>stringLock = False, boolLock = True, typeLock = False\<rparr> [])) [] =
       (Returns \<lparr>initialValue = JNum NaN, name = lit ''(x / literal)'',
          options = default_options, typeHistory = [''nan''], inferredType = ''nan'',
          convertedValue = JNum NaN\<rparr>, [])
   \<and> \<not> in_unit_range NaN"
  by (simp add: eval_construct eval_math eval_number eval_string in_unit_range_def Let_def)

text \<open>
  C5, amended. For every instance with \<open>boolLock\<close> set and the tag \<^verbatim>\<open>'boolean'\<close>: the left
  operand is 1 or 0 according to the truth of the value, the operator is applied, and
  the result is clamped by \<^verbatim>\<open>Math.max(0, Math.min(1, result))\<close> before it is wrapped. For
  every operand that converts to a number \<open>y\<close>, \<^verbatim>\<open>subtract\<close>, \<^verbatim>\<open>multiply\<close> and \<^verbatim>\<open>divide\<close>
  return the instance that wraps \<open>clamp_unit (1/0 op y)\<close>, and so does \<^verbatim>\<open>add\<close> unless the
  operand is a string; for a string operand \<^verbatim>\<open>add\<close> concatenates \<^verbatim>\<open>'1'\<close> or \<^verbatim>\<open>'0'\<close> with it and
  the clamp converts the text back to a number. Hence the value of every returned
  instance lies in the closed range from 0 to 1 unless it is not-a-number; a result in
  the range is kept. In particular \<^verbatim>\<open>flex('x', true).boolLock().subtract(1)\<close> has the
  value 0 and \<^verbatim>\<open>toBoolean()\<close> of that instance has the value \<^verbatim>\<open>false\<close>; \<^verbatim>\<open>add(0.5)\<close> gives 1
  (from 1.5), \<^verbatim>\<open>subtract(3)\<close> gives 0 (from -2), and \<^verbatim>\<open>multiply(0.5)\<close> gives 0.5.
\<close>

theorem boolLock_math_clamps:
  "(\<forall>this other h y.
      boolLock (options this) \<and> isBoolean this \<and> ToNumber (unwrap other) = Returns y \<longrightarrow>
        subtract other this h =
          (Returns (number_instance (clamp_unit (num_sub (truth_number this) y))
                      (operation_name this ''-'' other)), h)
        \<and> multiply other this h =
          (Returns (number_instance (clamp_unit (num_mul (truth_number this) y))
                      (operation_name this ''*'' other)), h)
        \<and> divide' other this h =
          (Returns (number_instance (clamp_unit (num_div (truth_number this) y))
                      (operation_name this ''/'' other)), h)
        \<and> (\<not> is_string (unwrap other) \<longrightarrow>
             add other this h =
               (Returns (number_instance (clamp_unit (num_add (truth_number this) y))
                           (operation_name this ''+'' other)), h)))
   \<and> (\<forall>this other h s.
        boolLock (options this) \<and> isBoolean this \<and> unwrap other = JStr s \<longrightarrow>
          add other this h =
            (Returns (number_instance
                        (clamp_unit (StringToNumber
                           ((if ToBoolean (convertedValue this) then lit ''1'' else lit ''0'')
                            @ s)))
                        (operation_name this ''+'' other)), h))
   \<and> (\<forall>this operator other h inst h'.
        boolLock (options this) \<and> isBoolean this
        \<and> mathOperation operator other this h = (Returns inst, h') \<longrightarrow>
          (\<exists>n. convertedValue inst = JNum n \<and> (n = NaN \<or> in_unit_range n)))
   \<and> (\<forall>r. (clamp_unit r = NaN \<longleftrightarrow> r = NaN)
          \<and> (r \<noteq> NaN \<longrightarrow> in_unit_range (clamp_unit r))
          \<and> (in_unit_range r \<longrightarrow> clamp_unit r = r))
   \<and> flex (JStr (lit ''x'')) (JBool True) default_options [] =
       (Returns \<lparr>initialValue = JBool True, name = lit ''x'', options = default_options,
          typeHistory = [''boolean''], inferredType = ''boolean'',
          convertedValue = JBool True\<rparr>, [])
   \<and> boolLock_op \<lparr>initialValue = JBool True, name = lit ''x'', options = default_options,
          typeHistory = [''boolean''], inferredType = ''boolean'',
          convertedValue = JBool True\<rparr> [] =
       (\<lparr>initialValue = JBool True, name = lit ''x'',
         options = \<lparr>stringLock = False, boolLock = True, typeLock = False\<rparr>,
         typeHistory = [''boolean''], inferredType = ''boolean'',
         convertedValue = JNum (Fin 1)\<rparr>, [])
   \<and> subtract (Raw (JNum (Fin 1)))
         \<lparr>initialValue = JBool True, name = lit ''x'',
           options = \<lparr>stringLock = False, boolLock = True, typeLock = False\<rparr>,
           typeHistory = [''boolean''], inferredType = ''boolean'',
           convertedValue = JNum (Fin 1)\<rparr> [] =
       (Returns \<lparr>initialValue = JNum (Fin 0), name = lit ''(x - literal)'',
          options = default_options, typeHistory = [''number''], inferredType = ''number'',
          convertedValue = JNum (Fin 0)\<rparr>, [])
   \<and> toBoolean \<lparr>initialValue = JNum (Fin 0), name = lit ''(x - literal)'',
          options = default_options, typeHistory = [''number''], inferredType = ''number'',
          convertedValue = JNum (Fin 0)\<rparr> [] =
       (Returns \<lparr>initialValue = JBool False, name = lit ''Boolean((x - literal))'',
          options = default_options, typeHistory = [''boolean''], inferredType = ''boolean'',
          convertedValue = JBool False\<rparr>, [])
   \<and> add (Raw (JNum (Fin (1 / 2))))
         \<lparr>initialValue = JBool True, name = lit ''x'',
           options = \<lparr>stringLock = False, boolLock = True, typeLock = False\<rparr>,
           typeHistory = [''boolean''], inferredType = ''boolean'',
           convertedValue = JNum (Fin 1)\<rparr> [] =
       (Returns \<lparr>initialValue = JNum (Fin 1), name = lit ''(x + literal)'',
          options = default_options, typeHistory = [''number''], inferredType = ''number'',
          convertedValue = JNum (Fin 1)\<rparr>, [])
   \<and> subtract (Raw (JNum (Fin 3)))
         \<lparr>initialValue = JBool True, name = lit ''x'',
           options = \<lparr>stringLock = False, boolLock = True, typeLock = False\<rparr>,
           typeHistory = [''boolean''], inferredType = ''boolean'',
           convertedValue = JNum (Fin 1)\<rparr> [] =
       (Returns \<lparr>initialValue = JNum (Fin 0), name = lit ''(x - literal)'',
          options = default_options, typeHistory = [''number''], inferredType = ''number'',
          convertedValue = JNum (Fin 0)\<rparr>, [])
   \<and> multiply (Raw (JNum (Fin (1 / 2))))
         \<lparr>initialValue = JBool True, name = lit ''x'',
           options = \<lparr>stringLock = False, boolLock = True, typeLock = False\<rparr>,
           typeHistory = [''boolean''], inferredType = ''boolean'',
           convertedValue = JNum (Fin 1)\<rparr> [] =
       (Returns \<lparr>initialValue = JNum (Fin (1 / 2)), name = lit ''(x * literal)'',
          options = default_options, typeHistory = [''number''], inferredType = ''number'',
          convertedValue = JNum (Fin (1 / 2))\<rparr>, [])"
proof -
  have numeric: "\<forall>this other h y.
      boolLock (options this) \<and> isBoolean this \<and> ToNumber (unwrap other) = Returns y \<longrightarrow>
        subtract other this h =
          (Returns (number_instance (clamp_unit (num_sub (truth_number this) y))
                      (operation_name this ''-'' other)), h)
        \<and> multiply other this h =
          (Returns (number_instance (clamp_unit (num_mul (truth_number this) y))
                      (operation_name this ''*'' other)), h)
        \<and> divide' other this h =
          (Returns (number_instance (clamp_unit (num_div (truth_number this) y))
                      (operation_name this ''/'' other)), h)
        \<and> (\<not> is_string (unwrap other) \<longrightarrow>
             add other this h =
               (Returns (number_instance (clamp_unit (num_add (truth_number this) y))
                           (operation_name this ''+'' other)), h))"
    using boolLock_numeric by blast
  have concat: "\<forall>this other h s.
        boolLock (options this) \<and> isBoolean this \<and> unwrap other = JStr s \<longrightarrow>
          add other this h =
            (Returns (number_instance
                        (clamp_unit (StringToNumber
                           ((if ToBoolean (convertedValue this) then lit ''1'' else lit ''0'')
                            @ s)))
                        (operation_name this ''+'' other)), h)"
    using boolLock_concat by blast
  have range: "\<forall>this operator other h inst h'.
        boolLock (options this) \<and> isBoolean this
        \<and> mathOperation operator other this h = (Returns inst, h') \<longrightarrow>
          (\<exists>n. convertedValue inst = JNum n \<and> (n = NaN \<or> in_unit_range n))"
    using boolLock_math_range by blast
  have clamp: "\<forall>r. (clamp_unit r = NaN \<longleftrightarrow> r = NaN)
          \<and> (r \<noteq> NaN \<longrightarrow> in_unit_range (clamp_unit r))
          \<and> (in_unit_range r \<longrightarrow> clamp_unit r = r)"
    using clamp_unit_range by blast
  show ?thesis
    apply (intro conjI)
               apply (rule numeric)
              apply (rule concat)
             apply (rule range)
            apply (rule clamp)
           apply (rule example_flex_true)
          apply (rule example_boolLock)
         apply (rule example_subtract)
        apply (rule example_toBoolean)
       apply (rule example_add_half)
      apply (rule example_subtract_three)
     apply (rule example_multiply_half)
    done
qed

theorem boolLock_math_clamps_witness:
  "boolLock (options \<lparr>initialValue = JBool True, name = lit ''x'',
           options = \<lparr>stringLock = False, boolLock = True, typeLock = False\<rparr>,
           typeHistory = [''boolean''], inferredType = ''boolean'',
           convertedValue = JNum (Fin 1)\<rparr>)
   \<and> isBoolean \<lparr>initialValue = JBool True, name = lit ''x'',
           options = \<lparr>stringLock = False, boolLock = True, typeLock = False\<rparr>,
           typeHistory = [''boolean''], inferredType = ''boolean'',
           convertedValue = JNum (Fin 1)\<rparr>
   \<and> ToNumber (unwrap (Raw (JNum (Fin (1 / 2))))) = Returns (Fin (1 / 2))
   \<and> \<not> is_string (unwrap (Raw (JNum (Fin (1 / 2)))))
   \<and> num_add (truth_number \<lparr>initialValue = JBool True, name = lit ''x'',
           options = \<lparr>stringLock = False, boolLock = True, typeLock = False\<rparr>,
           typeHistory = [''boolean''], inferredType = ''boolean'',
           convertedValue = JNum (Fin 1)\<rparr>) (Fin (1 / 2)) = Fin (3 / 2)
   \<and> clamp_unit (Fin (3 / 2)) = Fin 1
   \<and> add (Raw (JNum (Fin (1 / 2))))
         \<lparr>initialValue = JBool True, name = lit ''x'',
           options = \<lparr>stringLock = False, boolLock = True, typeLock = False\<rparr>,
           typeHistory = [''boolean''], inferredType = ''boolean'',
           convertedValue = JNum (Fin 1)\<rparr> [] =
       (Returns \<lparr>initialValue = JNum (Fin 1), name = lit ''(x + literal)'',
          options = default_options, typeHistory = [''number''], inferredType = ''number'',
          convertedValue = JNum (Fin 1)\<rparr>, [])
   \<and> in_unit_range (Fin 1)"
proof -
  let ?inst = "\<lparr>initialValue = JBool True, name = lit ''x'',
           options = \<lparr>stringLock = False, boolLock = True, typeLock = False\<rparr>,
           typeHistory = [''boolean''], inferredType = ''boolean'',
           convertedValue = JNum (Fin 1)\<rparr>"
  have hyp: "boolLock (options ?inst) \<and> isBoolean ?inst
             \<and> ToNumber (unwrap (Raw (JNum (Fin (1 / 2))))) = Returns (Fin (1 / 2))"
    by (simp add: isBoolean_def ToNumber_def unwrap_def)
  have ns: "\<not> is_string (unwrap (Raw (JNum (Fin (1 / 2)))))"
    by (simp add: is_string_def unwrap_def)
  have ev: "num_add (truth_number ?inst) (Fin (1 / 2)) = Fin (3 / 2)"
    "clamp_unit (Fin (3 / 2)) = Fin 1" "in_unit_range (Fin 1)"
    by (simp_all add: truth_number_def ToBoolean_def clamp_unit_def in_unit_range_def
          eval_number)
  have nm: "operation_name ?inst ''+'' (Raw (JNum (Fin (1 / 2)))) = lit ''(x + literal)''"
    by (simp add: operation_name_def getName_def lit_def)
  from boolLock_math_clamps[THEN conjunct1, rule_format, OF hyp, of "[]"] ns
  have "add (Raw (JNum (Fin (1 / 2)))) ?inst [] =
          (Returns (number_instance (clamp_unit (num_add (truth_number ?inst) (Fin (1 / 2))))
                      (operation_name ?inst ''+'' (Raw (JNum (Fin (1 / 2)))))), [])"
    by blast
  with hyp ns ev nm show ?thesis
    by (simp add: number_instance_def)
qed

lemma subtract_number:
  assumes "boolLock (options this)" and "isNumber this" and "convertedValue this = JNum n"
  shows "subtract (Raw (JNum m)) this h =
     (Returns \<lparr>initialValue = JNum (num_sub n m),
        name = lit ''('' @ name this @ lit '' '' @ lit ''-'' @ lit '' '' @ lit ''literal''
               @ lit '')'',
        options = default_options, typeHistory = [inferType (JNum (num_sub n m))],
        inferredType = inferType (JNum (num_sub n m)),
        convertedValue = JNum (num_sub n m)\<rparr>, h)"
proof -
  from assms(2) have "\<not> (boolLock (options this) \<and> isBoolean this)"
    and "\<not> (stringLock (options this) \<and> isString this)"
    by (simp_all add: isNumber_def isBoolean_def isString_def)
  from mathOperation_plain[OF this] assms(3) show ?thesis
    by (simp add: subtract_def switch_operator_def js_sub_def numeric_op_def bind_def
          ToNumber_def unwrap_def getName_def wrap_number)
qed

lemma example_five:
  "new_FlexType (JNum (Fin 5)) (lit ''x'')
       \<lparr>stringLock = False, boolLock = True, typeLock = False\<rparr> [] =
     (\<lparr>initialValue = JNum (Fin 5), name = lit ''x'',
       options = \<lparr>stringLock = False, boolLock = True, typeLock = False\<rparr>,
       typeHistory = [''number''], inferredType = ''number'',
       convertedValue = JNum (Fin 5)\<rparr>, [])"
  by (simp add: new_FlexType_number inferType_number)

lemma example_five_minus_ten:
  "subtract (Raw (JNum (Fin 10)))
     \<lparr>initialValue = JNum (Fin 5), name = lit ''x'',
       options = \<lparr>stringLock = False, boolLock = True, typeLock = False\<rparr>,
       typeHistory = [''number''], inferredType = ''number'',
       convertedValue = JNum (Fin 5)\<rparr> [] =
   (Returns \<lparr>initialValue = JNum (Fin (- 5)), name = lit ''(x - literal)'',
      options = default_options, typeHistory = [''number''], inferredType = ''number'',
      convertedValue = JNum (Fin (- 5))\<rparr>, [])"
  by (simp add: eval_construct eval_math eval_number eval_string Let_def)

text \<open>
  C9. The coercion of the left operand to 1 or 0 and the clamp apply only when \<open>boolLock\<close>
  is set and the tag is \<^verbatim>\<open>'boolean'\<close>: in every other case in which the operation does
  not throw on a locked string, the operator is applied to the converted value as it
  is and the result is wrapped unclamped. In particular, for every instance with
  \<open>boolLock\<close> set whose tag is \<^verbatim>\<open>'number'\<close> and whose value is the number \<open>n\<close>, \<^verbatim>\<open>subtract(m)\<close>
  returns an instance whose value is \<open>n - m\<close>; with 5 and 10 the value is \<open>- 5\<close>.
\<close>

theorem boolLock_number_not_clamped:
  "(\<forall>this operator other h.
      \<not> (boolLock (options this) \<and> isBoolean this)
      \<and> \<not> (stringLock (options this) \<and> isString this) \<longrightarrow>
        mathOperation operator other this h =
          wrap (switch_operator operator (convertedValue this) (unwrap other))
            (lit ''('' @ name this @ lit '' '' @ lit operator @ lit '' '' @ getName other
             @ lit '')'') h)
   \<and> (\<forall>this n m h.
        boolLock (options this) \<and> isNumber this \<and> convertedValue this = JNum n \<longrightarrow>
          subtract (Raw (JNum m)) this h =
            (Returns \<lparr>initialValue = JNum (num_sub n m),
               name = lit ''('' @ name this @ lit '' '' @ lit ''-'' @ lit '' ''
                      @ lit ''literal'' @ lit '')'',
               options = default_options, typeHistory = [inferType (JNum (num_sub n m))],
               inferredType = inferType (JNum (num_sub n m)),
               convertedValue = JNum (num_sub n m)\<rparr>, h))
   \<and> new_FlexType (JNum (Fin 5)) (lit ''x'')
         \<lparr>stringLock = False, boolLock = True, typeLock = False\<rparr> [] =
       (\<lparr>initialValue = JNum (Fin 5), name = lit ''x'',
         options = \<lparr>stringLock = False, boolLock = True, typeLock = False\<rparr>,
         typeHistory = [''number''], inferredType = ''number'',
         convertedValue = JNum (Fin 5)\<rparr>, [])
   \<and> subtract (Raw (JNum (Fin 10)))
         \<lparr>initialValue = JNum (Fin 5), name = lit ''x'',
           options = \<lparr>stringLock = False, boolLock = True, typeLock = False\<rparr>,
           typeHistory = [''number''], inferredType = ''number'',
           convertedValue = JNum (Fin 5)\<rparr> [] =
       (Returns \<lparr>initialValue = JNum (Fin (- 5)), name = lit ''(x - literal)'',
          options = default_options, typeHistory = [''number''], inferredType = ''number'',
          convertedValue = JNum (Fin (- 5))\<rparr>, [])"
  using example_five example_five_minus_ten
  by (intro conjI allI impI)
     (auto intro: mathOperation_plain subtract_number simp only:)

theorem boolLock_number_not_clamped_witness:
  "boolLock (options \<lparr>initialValue = JNum (Fin 5), name = lit ''x'',
           options = \<lparr>stringLock = False, boolLock = True, typeLock = False\<rparr>,
           typeHistory = [''number''], inferredType = ''number'',
           convertedValue = JNum (Fin 5)\<rparr>)
   \<and> isNumber \<lparr>initialValue = JNum (Fin 5), name = lit ''x'',
           options = \<lparr>stringLock = False, boolLock = True, typeLock = False\<rparr>,
           typeHistory = [''number''], inferredType = ''number'',
           convertedValue = JNum (Fin 5)\<rparr>
   \<and> num_sub (Fin 5) (Fin 10) = Fin (- 5)
   \<and> subtract (Raw (JNum (Fin 10)))
         \<lparr>initialValue = JNum (Fin 5), name = lit ''x'',
           options = \<lparr>stringLock = False, boolLock = True, typeLock = False\<rparr>,
           typeHistory = [''number''], inferredType = ''number'',
           convertedValue = JNum (Fin 5)\<rparr> [] =
       (Returns \<lparr>initialValue = JNum (num_sub (Fin 5) (Fin 10)),
          name = lit ''('' @ lit ''x'' @ lit '' '' @ lit ''-'' @ lit '' '' @ lit ''literal''
                 @ lit '')'',
          options = default_options,
          typeHistory = [inferType (JNum (num_sub (Fin 5) (Fin 10)))],
          inferredType = inferType (JNum (num_sub (Fin 5) (Fin 10))),
          convertedValue = JNum (num_sub (Fin 5) (Fin 10))\<rparr>, [])"
proof -
  let ?inst = "\<lparr>initialValue = JNum (Fin 5), name = lit ''x'',
           options = \<lparr>stringLock = False, boolLock = True, typeLock = False\<rparr>,
           typeHistory = [''number''], inferredType = ''number'',
           convertedValue = JNum (Fin 5)\<rparr>"
  have h: "boolLock (options ?inst) \<and> isNumber ?inst \<and> convertedValue ?inst = JNum (Fin 5)"
    by (simp add: isNumber_def)
  have n: "num_sub (Fin 5) (Fin 10) = Fin (- 5)"
    by (simp add: eval_number Let_def)
  from boolLock_number_not_clamped
  have "\<forall>this n m h.
        boolLock (options this) \<and> isNumber this \<and> convertedValue this = JNum n \<longrightarrow>
          subtract (Raw (JNum m)) this h =
            (Returns \<lparr>initialValue = JNum (num_sub n m),
               name = lit ''('' @ name this @ lit '' '' @ lit ''-'' @ lit '' ''
                      @ lit ''literal'' @ lit '')'',
               options = default_options, typeHistory = [inferType (JNum (num_sub n m))],
               inferredType = inferType (JNum (num_sub n m)),
               convertedValue = JNum (num_sub n m)\<rparr>, h)"
    by blast
  from this[rule_format, OF h, of "Fin 10" "[]"] h n show ?thesis
    by simp
qed

subsection \<open>Shared containers\<close>

lemma get_shares_array:
  assumes "isArray this \<or> isObject this" and "property_key p = Some k"
    and "property_get h (convertedValue this) k = Returns (JArr r)"
  shows "get p this h =
     (Returns \<lparr>initialValue = JArr r, name = name this @ lit ''.'' @ k,
        options = default_options, typeHistory = [''array''], inferredType = ''array'',
        convertedValue = JArr r\<rparr>, h)"
  using assms by (auto simp: get_def Let_def wrap_array)

lemma get_shares_object:
  assumes "isArray this \<or> isObject this" and "property_key p = Some k"
    and "property_get h (convertedValue this) k = Returns (JObj r)"
  shows "get p this h =
     (Returns \<lparr>initialValue = JObj r, name = name this @ lit ''.'' @ k,
        options = default_options, typeHistory = [''object''], inferredType = ''object'',
        convertedValue = JObj r\<rparr>, h)"
  using assms by (auto simp: get_def Let_def wrap_object)

lemma push_in_place:
  assumes "isArray this" and "convertedValue this = JArr r" and "arr_at h r = Some xs"
  shows "push items this h = (Returns this, h[r := Arr (xs @ map unwrap items)])"
  using assms by (simp add: push_def Let_def)

lemma example_flex_items:
  \<open>flex (JStr (lit ''c'')) (JStr (lit ''{"items":[1]}'')) default_options [] =
   (Returns \<lparr>initialValue = JStr (lit ''{"items":[1]}''), name = lit ''c'',
      options = default_options, typeHistory = [''object''], inferredType = ''object'',
      convertedValue = JObj 1\<rparr>, [Arr [JNum (Fin 1)], Obj [(lit ''items'', JArr 0)]])\<close>
  by (simp add: eval_construct eval_json eval_string eval_parse eval_number Let_def)

lemma example_get_items:
  \<open>get (JStr (lit ''items''))
     \<lparr>initialValue = JStr (lit ''{"items":[1]}''), name = lit ''c'',
      options = default_options, typeHistory = [''object''], inferredType = ''object'',
      convertedValue = JObj 1\<rparr> [Arr xs, Obj [(lit ''items'', JArr 0)]] =
   (Returns \<lparr>initialValue = JArr 0, name = lit ''c.items'',
      options = default_options, typeHistory = [''array''], inferredType = ''array'',
      convertedValue = JArr 0\<rparr>, [Arr xs, Obj [(lit ''items'', JArr 0)]])\<close>
  by (simp add: eval_collection eval_construct eval_math eval_string Let_def)

lemma example_push_items:
  \<open>push [Raw (JNum (Fin 2))]
     \<lparr>initialValue = JArr 0, name = lit ''c.items'',
      options = default_options, typeHistory = [''array''], inferredType = ''array'',
      convertedValue = JArr 0\<rparr> [Arr [JNum (Fin 1)], Obj [(lit ''items'', JArr 0)]] =
   (Returns \<lparr>initialValue = JArr 0, name = lit ''c.items'',
      options = default_options, typeHistory = [''array''], inferredType = ''array'',
      convertedValue = JArr 0\<rparr>,
    [Arr [JNum (Fin 1), JNum (Fin 2)], Obj [(lit ''items'', JArr 0)]])\<close>
  by (simp add: eval_collection eval_math Let_def)

text \<open>
  C8. \<^verbatim>\<open>get\<close> on an instance with the tag \<^verbatim>\<open>'array'\<close> or \<^verbatim>\<open>'object'\<close> whose property is an array
  or an object returns a new instance that holds the same reference and leaves the
  store as it is; \<^verbatim>\<open>push\<close> changes the array in the store at that reference and returns
  the instance it was called on. So for \<^verbatim>\<open>c = flex('c', '{"items":[1]}')\<close> the store
  holds the array \<^verbatim>\<open>[1]\<close> in cell 0 and the object in cell 1; \<^verbatim>\<open>c.get('items')\<close> has the
  value cell 0; after \<^verbatim>\<open>push(2)\<close> on it cell 0 holds \<^verbatim>\<open>[1, 2]\<close>, which is what the value of
  \<^verbatim>\<open>c.get('items')\<close> then refers to. The instance \<^verbatim>\<open>c\<close>, with its tag \<^verbatim>\<open>'object'\<close> and its
  history \<^verbatim>\<open>['object']\<close>, is the same before and after: \<^verbatim>\<open>push\<close> touches the store only.
\<close>

theorem get_push_alias:
  \<open>(\<forall>this p k r h.
      (isArray this \<or> isObject this) \<and> property_key p = Some k
      \<and> property_get h (convertedValue this) k = Returns (JArr r) \<longrightarrow>
        get p this h =
          (Returns \<lparr>initialValue = JArr r, name = name this @ lit ''.'' @ k,
             options = default_options, typeHistory = [''array''], inferredType = ''array'',
             convertedValue = JArr r\<rparr>, h))
   \<and> (\<forall>this p k r h.
      (isArray this \<or> isObject this) \<and> property_key p = Some k
      \<and> property_get h (convertedValue this) k = Returns (JObj r) \<longrightarrow>
        get p this h =
          (Returns \<lparr>initialValue = JObj r, name = name this @ lit ''.'' @ k,
             options = default_options, typeHistory = [''object''], inferredType = ''object'',
             convertedValue = JObj r\<rparr>, h))
   \<and> (\<forall>this r h xs items.
      isArray this \<and> convertedValue this = JArr r \<and> arr_at h r = Some xs \<longrightarrow>
        push items this h = (Returns this, h[r := Arr (xs @ map unwrap items)]))
   \<and> flex (JStr (lit ''c'')) (JStr (lit ''{"items":[1]}'')) default_options [] =
       (Returns \<lparr>initialValue = JStr (lit ''{"items":[1]}''), name = lit ''c'',
          options = default_options, typeHistory = [''object''], inferredType = ''object'',
          convertedValue = JObj 1\<rparr>, [Arr [JNum (Fin 1)], Obj [(lit ''items'', JArr 0)]])
   \<and> get (JStr (lit ''items''))
         \<lparr>initialValue = JStr (lit ''{"items":[1]}''), name = lit ''c'',
          options = default_options, typeHistory = [''object''], inferredType = ''object'',
          convertedValue = JObj 1\<rparr> [Arr [JNum (Fin 1)], Obj [(lit ''items'', JArr 0)]] =
       (Returns \<lparr>initialValue = JArr 0, name = lit ''c.items'',
          options = default_options, typeHistory = [''array''], inferredType = ''array'',
          convertedValue = JArr 0\<rparr>, [Arr [JNum (Fin 1)], Obj [(lit ''items'', JArr 0)]])
   \<and> push [Raw (JNum (Fin 2))]
         \<lparr>initialValue = JArr 0, name = lit ''c.items'',
          options = default_options, typeHistory = [''array''], inferredType = ''array'',
          convertedValue = JArr 0\<rparr> [Arr [JNum (Fin 1)], Obj [(lit ''items'', JArr 0)]] =
       (Returns \<lparr>initialValue = JArr 0, name = lit ''c.items'',
          options = default_options, typeHistory = [''array''], inferredType = ''array'',
          convertedValue = JArr 0\<rparr>,
        [Arr [JNum (Fin 1), JNum (Fin 2)], Obj [(lit ''items'', JArr 0)]])
   \<and> get (JStr (lit ''items''))
         \<lparr>initialValue = JStr (lit ''{"items":[1]}''), name = lit ''c'',
          options = default_options, typeHistory = [''object''], inferredType = ''object'',
          convertedValue = JObj 1\<rparr>
         [Arr [JNum (Fin 1), JNum (Fin 2)], Obj [(lit ''items'', JArr 0)]] =
       (Returns \<lparr>initialValue = JArr 0, name = lit ''c.items'',
          options = default_options, typeHistory = [''array''], inferredType = ''array'',
          convertedValue = JArr 0\<rparr>,
        [Arr [JNum (Fin 1), JNum (Fin 2)], Obj [(lit ''items'', JArr 0)]])
   \<and> arr_at [Arr [JNum (Fin 1), JNum (Fin 2)], Obj [(lit ''items'', JArr 0)]] 0 =
       Some [JNum (Fin 1), JNum (Fin 2)]\<close>
  using example_flex_items example_push_items
    example_get_items[of "[JNum (Fin 1)]"] example_get_items[of "[JNum (Fin 1), JNum (Fin 2)]"]
  by (intro conjI allI impI)
     (auto intro: get_shares_array get_shares_object push_in_place simp: arr_at_def simp del: One_nat_def)

theorem get_push_alias_witness:
  \<open>(isArray \<lparr>initialValue = JStr (lit ''{"items":[1]}''), name = lit ''c'',
          options = default_options, typeHistory = [''object''], inferredType = ''object'',
          convertedValue = JObj 1\<rparr>
     \<or> isObject \<lparr>initialValue = JStr (lit ''{"items":[1]}''), name = lit ''c'',
          options = default_options, typeHistory = [''object''], inferredType = ''object'',
          convertedValue = JObj 1\<rparr>)
   \<and> property_key (JStr (lit ''items'')) = Some (lit ''items'')
   \<and> property_get [Arr [JNum (Fin 1)], Obj [(lit ''items'', JArr 0)]] (JObj 1) (lit ''items'')
       = Returns (JArr 0)
   \<and> get (JStr (lit ''items''))
         \<lparr>initialValue = JStr (lit ''{"items":[1]}''), name = lit ''c'',
          options = default_options, typeHistory = [''object''], inferredType = ''object'',
          convertedValue = JObj 1\<rparr> [Arr [JNum (Fin 1)], Obj [(lit ''items'', JArr 0)]] =
       (Returns \<lparr>initialValue = JArr 0, name = lit ''c'' @ lit ''.'' @ lit ''items'',
          options = default_options, typeHistory = [''array''], inferredType = ''array'',
          convertedValue = JArr 0\<rparr>, [Arr [JNum (Fin 1)], Obj [(lit ''items'', JArr 0)]])\<close>
proof -
  let ?c = \<open>\<lparr>initialValue = JStr (lit ''{"items":[1]}''), name = lit ''c'',
          options = default_options, typeHistory = [''object''], inferredType = ''object'',
          convertedValue = JObj 1\<rparr>\<close>
  let ?h = "[Arr [JNum (Fin 1)], Obj [(lit ''items'', JArr 0)]]"
  have h: "(isArray ?c \<or> isObject ?c) \<and> property_key (JStr (lit ''items'')) = Some (lit ''items'')
      \<and> property_get ?h (convertedValue ?c) (lit ''items'') = Returns (JArr 0)"
    by (simp add: eval_collection eval_string)
  from get_push_alias
  have "\<forall>this p k r h.
      (isArray this \<or> isObject this) \<and> property_key p = Some k
      \<and> property_get h (convertedValue this) k = Returns (JArr r) \<longrightarrow>
        get p this h =
          (Returns \<lparr>initialValue = JArr r, name = name this @ lit ''.'' @ k,
             options = default_options, typeHistory = [''array''], inferredType = ''array'',
             convertedValue = JArr r\<rparr>, h)"
    by blast
  from this[rule_format, OF h] h show ?thesis by simp
qed

subsection \<open>The coercion of strings\<close>

text \<open>
  A text that begins with a brace or a bracket can only be parsed to an object or an
  array: the scanner keeps the tokens in order, and the automaton reports a value
  when its stack becomes empty, which for such a text happens when the outermost
  array or object is closed.
\<close>

lemma lex_step_extends:
  "lex_step m toks c = Some (m', toks') \<Longrightarrow> \<exists>new. toks' = new @ toks"
  by (cases m) (auto simp: idle_step_def Let_def split: if_splits option.splits)

lemma lex_prefix:
  "lex m toks cs = Some ts \<Longrightarrow> \<exists>rest. ts = rev toks @ rest"
proof (induction cs arbitrary: m toks)
  case Nil
  then show ?case by (cases m) auto
next
  case (Cons c cs)
  then obtain m' toks' where st: "lex_step m toks c = Some (m', toks')"
    and l: "lex m' toks' cs = Some ts"
    by (auto split: option.splits)
  from lex_step_extends[OF st] obtain new where "toks' = new @ toks" by blast
  with Cons.IH[OF l] show ?case by auto
qed

lemma complete_cases:
  assumes "complete v st = Some (mode', st')"
  shows "(st = [] \<and> mode' = PDone v \<and> st' = []) \<or> (st \<noteq> [] \<and> st' \<noteq> [] \<and> (\<forall>w. mode' \<noteq> PDone w))"
  using assms by (auto simp: complete_def split: list.splits frame.splits)

lemma pstep_cases:
  assumes "pstep mode stack t = Some (mode', stack')" and "stack \<noteq> []" and "\<forall>w. mode \<noteq> PDone w"
  shows "(stack' \<noteq> [] \<and> (\<forall>w. mode' \<noteq> PDone w)) \<or> (\<exists>c. is_container c \<and> mode' = PDone c \<and> stack' = [])"
  using assms
  by (cases mode)
     (auto simp: pstep_def value_tok_def close_arr_def close_obj_def key_tok_def is_container_def
           dest!: complete_cases split: if_splits token.splits list.splits frame.splits json.splits)

lemma parse_tokens_container:
  assumes "parse_tokens mode stack ts = Some v" and "stack \<noteq> []" and "\<forall>w. mode \<noteq> PDone w"
  shows "is_container v"
  using assms
proof (induction ts arbitrary: mode stack)
  case Nil
  then show ?case by (cases mode) auto
next
  case (Cons t ts)
  then obtain mode' stack' where st: "pstep mode stack t = Some (mode', stack')"
    and p: "parse_tokens mode' stack' ts = Some v"
    by (auto split: option.splits)
  from pstep_cases[OF st Cons.prems(2,3)] show ?case
  proof
    assume "stack' \<noteq> [] \<and> (\<forall>w. mode' \<noteq> PDone w)"
    with Cons.IH[OF p] show ?thesis by blast
  next
    assume "\<exists>c. is_container c \<and> mode' = PDone c \<and> stack' = []"
    then obtain c where c: "is_container c" "mode' = PDone c" "stack' = []" by blast
    with p show ?thesis by (cases ts) (auto simp: pstep_def)
  qed
qed

lemma parse_json_bracketed:
  assumes "bracket_delimited t" and "parse_json t = Some v"
  shows "is_container v"
proof -
  from assms(1) obtain c cs where t: "t = c # cs" and c: "c = 0x7B \<or> c = 0x5B"
    by (auto simp: bracket_delimited_def split: list.splits)
  from assms(2) obtain ts where l: "lex LIdle [] t = Some ts" and p: "parse_tokens PValue [] ts = Some v"
    by (auto simp: parse_json_def split: option.splits)
  from l t c have "lex LIdle [TPunct c] cs = Some ts"
    by (auto simp: idle_step_def)
  from lex_prefix[OF this] obtain rest where ts: "ts = TPunct c # rest" by auto
  from p ts c have "parse_tokens (if c = 0x5B then PArrFirst else PObjFirst)
                      [if c = 0x5B then FArr [] else FObj []] rest = Some v"
    by (auto simp: pstep_def value_tok_def)
  from parse_tokens_container[OF this] show ?thesis by auto
qed

lemma JSON_parse_bracketed:
  assumes "bracket_delimited t" and "JSON_parse t h = Some (v, h')"
  shows "(\<exists>r. v = JArr r) \<or> (\<exists>r. v = JObj r)"
proof -
  from assms(2) obtain j where j: "parse_json t = Some j" and s: "store_json j h = (v, h')"
    by (auto simp: JSON_parse_def)
  from parse_json_bracketed[OF assms(1) j] s show ?thesis
    by (cases j) (auto simp: is_container_def split: prod.splits)
qed

lemma lower_char_eq_iff:
  assumes "0x61 \<le> d" and "d \<le> 0x7A"
  shows "lower_char c = d \<longleftrightarrow> same_letter c d"
proof -
  have *: "c + 0x20 = d \<longleftrightarrow> c = d - 0x20" by auto
  from assms show ?thesis
    unfolding lower_char_def same_letter_def
    by (auto simp: * word_le_nat_alt unat_sub word_less_nat_alt)
qed

lemma toLowerCase_true: "toLowerCase t = lit ''true'' \<longleftrightarrow> matches_ignoring_case t ''true''"
  by (simp add: toLowerCase_def matches_ignoring_case_def lit_def list_all2_Cons2
        map_eq_Cons_conv lower_char_eq_iff)

lemma toLowerCase_false: "toLowerCase t = lit ''false'' \<longleftrightarrow> matches_ignoring_case t ''false''"
  by (simp add: toLowerCase_def matches_ignoring_case_def lit_def list_all2_Cons2
        map_eq_Cons_conv lower_char_eq_iff)

lemma bracket_delimited_iff:
  "(startsWith t 0x7B \<and> endsWith t 0x7D) \<or> (startsWith t 0x5B \<and> endsWith t 0x5D)
     \<longleftrightarrow> bracket_delimited t"
  by (cases t) (auto simp: startsWith_def endsWith_def bracket_delimited_def)

lemma finite_number_None:
  "finite_number t = None \<Longrightarrow> isNaN t \<or> \<not> isFinite (Number_of t)"
  by (auto simp: isNaN_def isFinite_def Number_of_def isNaN_num_def isFinite_num_def
        finite_number_def split: jsnum.splits)

lemma finite_number_Some:
  assumes "finite_number t = Some n"
  shows "\<not> isNaN t" and "isFinite n" and "Number_of t = n"
  using assms
  by (auto simp: isNaN_def isFinite_def Number_of_def isNaN_num_def isFinite_num_def
        finite_number_def split: jsnum.splits)

lemmas unfold_construct_string = new_FlexType_def autoConvert_def convertString_def
  spec_coerce_def Let_def toLowerCase_true toLowerCase_false bracket_delimited_iff
  recordTypeChange_def

text \<open>The constructor on a string, against the wording of the specification.\<close>

lemma construct_string_spec:
  assumes "\<not> stringLock opts" and "\<not> typeLock opts"
  shows "new_FlexType (JStr str) nm opts h =
     (case spec_coerce str h of
        ((v, tag), h') \<Rightarrow>
          (\<lparr>initialValue = JStr str, name = nm, options = opts, typeHistory = [tag],
            inferredType = tag, convertedValue = v\<rparr>, h'))"
proof -
  have it: "inferType (JStr str) = ''string''"
    by (simp add: inferType_def typeof_def Array_isArray_def)
  show ?thesis
  proof (cases "finite_number (trim str)")
    case (Some n)
    from finite_number_Some[OF this] Some assms show ?thesis
      by (auto simp: unfold_construct_string it)
  next
    case None
    note fin = finite_number_None[OF None]
    show ?thesis
    proof (cases "bracket_delimited (trim str)")
      case False
      with assms None fin show ?thesis
        by (auto simp: unfold_construct_string it)
    next
      case True
      show ?thesis
      proof (cases "JSON_parse (trim str) h")
        case None
        with True assms \<open>finite_number (trim str) = None\<close> fin show ?thesis
          by (auto simp: unfold_construct_string it)
      next
        case (Some a)
        then obtain v h' where a: "JSON_parse (trim str) h = Some (v, h')" by (cases a) auto
        from JSON_parse_bracketed[OF True a] a True assms \<open>finite_number (trim str) = None\<close> fin
        show ?thesis
          by (auto simp: unfold_construct_string it Array_isArray_def)
      qed
    qed
  qed
qed

text \<open>
  C2. For every string, name, store and options with \<open>stringLock\<close> and \<open>typeLock\<close> not
  set, the constructor produces the instance that the specification describes
  (\<open>spec_coerce\<close>): trimmed text empty: the string; \<^verbatim>\<open>true\<close> or \<^verbatim>\<open>false\<close> in any case: the
  boolean; a finite number: the number; delimited by braces or brackets: the parsed
  array or object, or the original string when the parse fails; otherwise the
  original string. The constructor is a total function: no error is raised.
\<close>

theorem string_coercion_precedence:
  assumes "\<not> stringLock opts" and "\<not> typeLock opts"
  shows "new_FlexType (JStr str) nm opts h =
     (case spec_coerce str h of
        ((v, tag), h') \<Rightarrow>
          (\<lparr>initialValue = JStr str, name = nm, options = opts, typeHistory = [tag],
            inferredType = tag, convertedValue = v\<rparr>, h'))"
  using assms by (rule construct_string_spec)

theorem string_coercion_precedence_witness:
  "\<not> stringLock default_options \<and> \<not> typeLock default_options
   \<and> spec_coerce (lit '' [1,2] '') [] =
       ((JArr 0, ''array''), [Arr [JNum (Fin 1), JNum (Fin 2)]])
   \<and> new_FlexType (JStr (lit '' [1,2] '')) (lit ''x'') default_options [] =
       (\<lparr>initialValue = JStr (lit '' [1,2] ''), name = lit ''x'', options = default_options,
         typeHistory = [''array''], inferredType = ''array'', convertedValue = JArr 0\<rparr>,
        [Arr [JNum (Fin 1), JNum (Fin 2)]])"
proof -
  have locks: "\<not> stringLock default_options" "\<not> typeLock default_options"
    by (simp_all add: default_options_def)
  have sc: "spec_coerce (lit '' [1,2] '') [] =
       ((JArr 0, ''array''), [Arr [JNum (Fin 1), JNum (Fin 2)]])"
    by (simp add: spec_coerce_def matches_ignoring_case_def same_letter_def finite_number_def
          bracket_delimited_def eval_json eval_string eval_parse eval_number Let_def)
  from string_coercion_precedence[OF locks, of "lit '' [1,2] ''" "lit ''x''" "[]"] locks sc
  show ?thesis by simp
qed

subsection \<open>Integers below \<open>2 ^ 53\<close> are represented exactly\<close>

lemma blen_le: "n < 2 ^ k \<Longrightarrow> blen n \<le> k"
proof (induction k arbitrary: n)
  case 0
  then show ?case by (simp add: blen.simps)
next
  case (Suc k)
  show ?case
  proof (cases "n = 0")
    case True
    then show ?thesis by (simp add: blen.simps)
  next
    case False
    from Suc.prems have "n div 2 < 2 ^ k" by auto
    from Suc.IH[OF this] False show ?thesis by (subst blen.simps) simp
  qed
qed

lemma rne_of_int [simp]: "rne (of_int m) = m"
  by (simp add: rne_def)

lemma fl_exact_int:
  assumes "0 < z" and "z < 2 ^ 53"
  shows "fl (of_int z) = Fin (of_int z)"
proof -
  define e where "e = max (ilog2 (of_int z) - 52) (- 1074)"
  from assms have "nat z < 2 ^ 53"
    by (metis nat_less_numeral_power_cancel_iff)
  from blen_le[OF this] assms(1) have "ilog2 (of_int z) \<le> 52"
    by (simp add: ilog2_def)
  then have e: "e \<le> 0" "- 1074 \<le> e" by (simp_all add: e_def)
  define j where "j = nat (- e)"
  with e have ej: "e = - int j" by simp
  have p: "(2::rat) powi e = 1 / 2 ^ j"
    by (simp add: ej power_int_minus divide_inverse)
  have q: "rat_of_int z / (2 powi e) = of_int (z * 2 ^ j)"
    by (simp add: p)
  have r: "of_int (rne (of_int z / 2 powi e)) * (2::rat) powi e = of_int z"
    by (simp only: q rne_of_int) (simp add: p)
  have "\<not> (2::rat) ^ 1024 \<le> of_int z"
  proof -
    from assms(2) have "z < 2 ^ 1024" by (rule less_trans) simp
    then have "rat_of_int z < of_int (2 ^ 1024)" by (simp only: of_int_less_iff)
    then show ?thesis by simp
  qed
  with r show ?thesis
    by (simp add: fl_def Let_def e_def[symmetric])
qed

lemma fl_signed_exact_int:
  assumes "z \<noteq> 0" and "\<bar>z\<bar> < 2 ^ 53"
  shows "fl_signed (of_int z) = Fin (of_int z)"
proof (cases "0 < z")
  case True
  with assms fl_exact_int[of z] show ?thesis by (simp add: fl_signed_def)
next
  case False
  with assms have "0 < - z" "- z < 2 ^ 53" by simp_all
  from fl_exact_int[OF this] False assms(1) show ?thesis
    by (simp add: fl_signed_def num_neg_def)
qed

lemma num_add_int:
  assumes "\<bar>a + b\<bar> < 2 ^ 53"
  shows "num_add (Fin (of_int a)) (Fin (of_int b)) = Fin (of_int (a + b))"
proof (cases "a + b = 0")
  case True
  then have "rat_of_int a + of_int b = 0" by (metis of_int_0 of_int_add)
  then show ?thesis using True
    by (simp add: num_add_def is_inf_def is_zero_def Let_def)
next
  case False
  then have nz: "rat_of_int a + of_int b \<noteq> 0" by (metis of_int_0_eq_iff of_int_add)
  then have "\<not> (rat_of_int a = 0 \<and> rat_of_int b = 0)" by auto
  with nz fl_signed_exact_int[OF False assms] show ?thesis
    by (auto simp add: num_add_def is_inf_def is_zero_def Let_def)
qed

lemma num_add_NZero:
  assumes "\<bar>a\<bar> < 2 ^ 53"
  shows "num_add (Fin (of_int a)) NZero = Fin (of_int a)"
proof (cases "a = 0")
  case True
  then show ?thesis by (simp add: num_add_def is_inf_def is_zero_def Let_def)
next
  case False
  with fl_signed_exact_int[OF False assms] show ?thesis
    by (simp add: num_add_def is_inf_def is_zero_def Let_def)
qed

lemma truncate_rat_of_int [simp]: "truncate_rat (of_int z) = z"
  by (simp add: truncate_rat_def)

subsection \<open>\<^verbatim>\<open>charShift\<close>\<close>

lemma shiftChars_append:
  "shiftChars off s acc =
     acc @ concat (map (\<lambda>c. String_fromCharCode (num_add (charCode c) off)) s)"
  by (induction s arbitrary: acc) simp_all

lemma charCode_int: "charCode c = Fin (of_int (uint c))"
  by (simp add: charCode_def)

lemma uint_16_bound: "uint (c :: jchar) < 2 ^ 16" "0 \<le> uint c"
  using uint_bounded[of c] by simp_all

lemma ToUint16_of_int: "ToUint16 (Fin (of_int z)) = word_of_int z"
  by (simp add: ToUint16_def)

lemma ToUint16_charCode: "ToUint16 (charCode c) = c"
  by (simp only: charCode_int ToUint16_of_int) simp

lemma charCode_bound:
  assumes "\<bar>k\<bar> \<le> 2 ^ 53 - 2 ^ 16"
  shows "\<bar>uint (c :: jchar) + k\<bar> < 2 ^ 53"
proof -
  have "0 \<le> uint c \<and> uint c < 2 ^ 16"
    using uint_bounded[of c] by simp
  with assms show ?thesis by arith
qed

lemma shift_one_char:
  assumes "\<bar>k\<bar> \<le> 2 ^ 53 - 2 ^ 16"
  shows "String_fromCharCode (num_add (charCode c) (Fin (of_int k))) = [c + word_of_int k]"
proof -
  from num_add_int[OF charCode_bound[OF assms, of c]]
  have "num_add (charCode c) (Fin (of_int k)) = Fin (of_int (uint c + k))"
    by (simp only: charCode_int)
  then show ?thesis
    by (simp only: String_fromCharCode_def ToUint16_of_int) simp
qed

lemma shift_one_char_neg:
  assumes "\<bar>k\<bar> \<le> 2 ^ 53 - 2 ^ 16"
  shows "String_fromCharCode (num_add (charCode c) (num_neg (Fin (of_int k)))) = [c - word_of_int k]"
proof (cases "k = 0")
  case True
  from charCode_bound[of 0 c] have "\<bar>uint c\<bar> < 2 ^ 53" by simp
  from num_add_NZero[OF this]
  have "num_add (charCode c) NZero = charCode c"
    by (simp only: charCode_int)
  moreover from True have "num_neg (Fin (of_int k)) = NZero"
    by (simp add: num_neg_def)
  ultimately show ?thesis using True
    by (simp only: String_fromCharCode_def ToUint16_charCode) simp
next
  case False
  from assms have "\<bar>- k\<bar> \<le> 2 ^ 53 - 2 ^ 16" by simp
  from num_add_int[OF charCode_bound[OF this, of c]]
  have "num_add (charCode c) (Fin (of_int (- k))) = Fin (of_int (uint c + - k))"
    by (simp only: charCode_int)
  moreover from False have "num_neg (Fin (of_int k)) = Fin (of_int (- k))"
    by (simp add: num_neg_def)
  ultimately show ?thesis
    by (simp only: String_fromCharCode_def ToUint16_of_int) simp
qed

lemma shiftChars_int:
  assumes "\<bar>k\<bar> \<le> 2 ^ 53 - 2 ^ 16"
  shows "shiftChars (Fin (of_int k)) s [] = map (\<lambda>c. c + word_of_int k) s"
  by (induction s) (simp_all add: shiftChars_append shift_one_char[OF assms])

lemma shiftChars_int_neg:
  assumes "\<bar>k\<bar> \<le> 2 ^ 53 - 2 ^ 16"
  shows "shiftChars (num_neg (Fin (of_int k))) s [] = map (\<lambda>c. c - word_of_int k) s"
  by (induction s) (simp_all add: shiftChars_append shift_one_char_neg[OF assms])

lemma shift_round_trip:
  assumes "\<bar>k\<bar> \<le> 2 ^ 53 - 2 ^ 16"
  shows "shiftChars (num_neg (Fin (of_int k))) (shiftChars (Fin (of_int k)) s []) [] = s"
  by (simp add: shiftChars_int[OF assms] shiftChars_int_neg[OF assms] comp_def)

text \<open>An unlocked construction from a string that keeps the tag \<^verbatim>\<open>'string'\<close> keeps the string.\<close>

lemma string_stays:
  assumes "new_FlexType (JStr s) nm default_options h = (b, h')" and "inferredType b = ''string''"
  shows "b = \<lparr>initialValue = JStr s, name = nm, options = default_options,
               typeHistory = [''string''], inferredType = ''string'', convertedValue = JStr s\<rparr>
         \<and> h' = h"
proof -
  have locks: "\<not> stringLock default_options" "\<not> typeLock default_options"
    by (simp_all add: default_options_def)
  from construct_string_spec[OF locks, of s nm h] assms show ?thesis
    by (auto simp: spec_coerce_def Let_def split: if_splits option.splits prod.splits jsval.splits)
qed

lemma new_FlexType_hello:
  "new_FlexType (JStr (lit ''hello'')) nm default_options h =
     (string_instance (lit ''hello'') nm, h)"
  by (simp add: string_instance_def eval_construct eval_string eval_parse eval_number Let_def)

lemma charShift_string_instance:
  "charShift off (string_instance s nm) h =
     wrap (Returns (JStr (shiftChars off s [])))
       (lit ''charShift('' @ nm @ lit '', '' @ num_toString off @ lit '')'') h"
  by (simp add: charShift_def string_instance_def isString_def default_options_def)

lemma string_instance_stays:
  assumes "new_FlexType (JStr s) nm default_options h = (b, h')" and "isString b"
  shows "b = string_instance s nm \<and> h' = h"
  using string_stays[OF assms(1)] assms(2) by (simp add: isString_def string_instance_def)

lemma charShift_round_trip_lemma:
  assumes k: "\<bar>k\<bar> \<le> 2 ^ 53 - 2 ^ 16"
  shows "\<exists>b h1. charShift (Fin (of_int k)) (string_instance (lit ''hello'') nm) h = (Returns b, h1)
     \<and> (isString b \<longrightarrow>
          (\<exists>c h2. charShift (num_neg (Fin (of_int k))) b h1 = (Returns c, h2)
             \<and> value' c = JStr (lit ''hello'') \<and> isString c))"
proof -
  let ?nm1 = "lit ''charShift('' @ nm @ lit '', '' @ num_toString (Fin (of_int k)) @ lit '')''"
  let ?shifted = "shiftChars (Fin (of_int k)) (lit ''hello'') []"
  obtain b h1 where n: "new_FlexType (JStr ?shifted) ?nm1 default_options h = (b, h1)"
    by (cases "new_FlexType (JStr ?shifted) ?nm1 default_options h") auto
  then have cs: "charShift (Fin (of_int k)) (string_instance (lit ''hello'') nm) h = (Returns b, h1)"
    by (simp add: charShift_string_instance wrap_def)
  have "\<exists>c h2. charShift (num_neg (Fin (of_int k))) b h1 = (Returns c, h2)
             \<and> value' c = JStr (lit ''hello'') \<and> isString c" if "isString b"
  proof -
    from string_instance_stays[OF n that] have b: "b = string_instance ?shifted ?nm1" and h1: "h1 = h"
      by simp_all
    let ?nm2 = "lit ''charShift('' @ ?nm1 @ lit '', '' @ num_toString (num_neg (Fin (of_int k)))
                 @ lit '')''"
    have "charShift (num_neg (Fin (of_int k))) b h1 = wrap (Returns (JStr (lit ''hello''))) ?nm2 h"
      by (simp only: b h1 charShift_string_instance shift_round_trip[OF k])
    also have "\<dots> = (Returns (string_instance (lit ''hello'') ?nm2), h)"
      by (simp add: wrap_def new_FlexType_hello)
    finally show ?thesis
      by (simp add: value'_def isString_def string_instance_def)
  qed
  with cs show ?thesis by blast
qed

lemma flex_hello:
  "flex (JStr (lit ''s'')) (JStr (lit ''hello'')) default_options [] =
     (Returns (string_instance (lit ''hello'') (lit ''s'')), [])"
  by (simp add: flex_def typeof_def new_FlexType_hello)

lemma charShift_minus_55:
  "charShift (Fin (- 55)) (string_instance (lit ''hello'') (lit ''s'')) [] =
     (Returns \<lparr>initialValue = JStr (lit ''1.558''), name = lit ''charShift(s, -55)'',
        options = default_options, typeHistory = [''number''], inferredType = ''number'',
        convertedValue = JNum (Fin (7016608219443233 / 4503599627370496))\<rparr>, [])"
  by (simp add: string_instance_def eval_charShift eval_tostring eval_construct eval_math
        eval_number eval_string eval_parse Let_def)

lemma charShift_55_throws:
  "charShift (Fin 55)
     \<lparr>initialValue = JStr (lit ''1.558''), name = lit ''charShift(s, -55)'',
        options = default_options, typeHistory = [''number''], inferredType = ''number'',
        convertedValue = JNum (Fin (7016608219443233 / 4503599627370496))\<rparr> [] =
   (Throws (Error (lit ''charShift can only be used on string types. Current type: number'')), [])"
  by (simp add: charShift_def isString_def lit_def)

lemma charShift_1:
  "charShift (Fin 1) (string_instance (lit ''hello'') (lit ''s'')) [] =
     (Returns (string_instance (lit ''ifmmp'') (lit ''charShift(s, 1)'')), [])"
  by (simp add: string_instance_def eval_charShift eval_tostring eval_construct eval_math
        eval_number eval_string eval_parse Let_def)

lemma charShift_minus_1:
  "charShift (num_neg (Fin 1)) (string_instance (lit ''ifmmp'') (lit ''charShift(s, 1)'')) [] =
     (Returns (string_instance (lit ''hello'') (lit ''charShift(charShift(s, 1), -1)'')), [])"
  by (simp add: string_instance_def eval_charShift eval_tostring eval_construct eval_math
        eval_number eval_string eval_parse Let_def)

lemma charShift_2_53:
  "charShift (Fin 9007199254740992) (string_instance (lit ''hello'') (lit ''s'')) [] =
     (Returns (string_instance (lit ''hdllp'')
        (lit ''charShift(s, '' @ num_toString (Fin 9007199254740992) @ lit '')'')), [])"
  by (simp add: string_instance_def eval_charShift eval_construct eval_math
        eval_number eval_string eval_parse Let_def)

lemma charShift_minus_2_53:
  "charShift (Fin (- 9007199254740992)) (string_instance (lit ''hdllp'') nm) [] =
     (Returns (string_instance (lit ''hdllp'')
        (lit ''charShift('' @ nm @ lit '', '' @ num_toString (Fin (- 9007199254740992)) @ lit '')'')), [])"
  by (simp add: string_instance_def eval_charShift eval_construct eval_math
        eval_number eval_string eval_parse Let_def)

text \<open>
  C6, as stated: for every integer \<open>k\<close>, \<^verbatim>\<open>charShift(k)\<close> and then \<^verbatim>\<open>charShift(-k)\<close> on an
  unlocked instance that wraps \<^verbatim>\<open>'hello'\<close> gives an instance with the value \<^verbatim>\<open>'hello'\<close>. It
  fails in two ways. With \<open>k = - 55\<close> the shifted string is \<^verbatim>\<open>'1.558'\<close>, which the
  constructor coerces to a number, and \<^verbatim>\<open>charShift(55)\<close> on the number-typed instance
  throws. With \<open>k = 2 ^ 53\<close> the sums of a code and the offset are rounded to even
  numbers, the shifted string is \<^verbatim>\<open>'hdllp'\<close>, and shifting back leaves \<^verbatim>\<open>'hdllp'\<close>.
\<close>

theorem charShift_round_trip_fails:
  "flex (JStr (lit ''s'')) (JStr (lit ''hello'')) default_options [] =
     (Returns (string_instance (lit ''hello'') (lit ''s'')), [])
   \<and> charShift (Fin (- 55)) (string_instance (lit ''hello'') (lit ''s'')) [] =
       (Returns \<lparr>initialValue = JStr (lit ''1.558''), name = lit ''charShift(s, -55)'',
          options = default_options, typeHistory = [''number''], inferredType = ''number'',
          convertedValue = JNum (Fin (7016608219443233 / 4503599627370496))\<rparr>, [])
   \<and> charShift (Fin 55)
         \<lparr>initialValue = JStr (lit ''1.558''), name = lit ''charShift(s, -55)'',
          options = default_options, typeHistory = [''number''], inferredType = ''number'',
          convertedValue = JNum (Fin (7016608219443233 / 4503599627370496))\<rparr> [] =
       (Throws (Error (lit ''charShift can only be used on string types. Current type: number'')),
        [])
   \<and> charShift (Fin 9007199254740992) (string_instance (lit ''hello'') (lit ''s'')) [] =
       (Returns (string_instance (lit ''hdllp'')
          (lit ''charShift(s, '' @ num_toString (Fin 9007199254740992) @ lit '')'')), [])
   \<and> charShift (Fin (- 9007199254740992))
         (string_instance (lit ''hdllp'')
            (lit ''charShift(s, '' @ num_toString (Fin 9007199254740992) @ lit '')'')) [] =
       (Returns (string_instance (lit ''hdllp'')
          (lit ''charShift('' @
             (lit ''charShift(s, '' @ num_toString (Fin 9007199254740992) @ lit '')'')
           @ lit '', '' @ num_toString (Fin (- 9007199254740992)) @ lit '')'')), [])
   \<and> lit ''hdllp'' \<noteq> lit ''hello''"
  using flex_hello charShift_minus_55 charShift_55_throws charShift_2_53 charShift_minus_2_53
  by (simp add: lit_def)

text \<open>
  C6, amended. For every integer \<open>k\<close> of magnitude at most \<open>2 ^ 53 - 2 ^ 16\<close> (so that
  every sum of a character code and the offset is exact), every name and every store:
  \<^verbatim>\<open>charShift(k)\<close> on the unlocked instance that wraps \<^verbatim>\<open>'hello'\<close> returns an instance, and if
  that instance has the tag \<^verbatim>\<open>'string'\<close>, then \<^verbatim>\<open>charShift(-k)\<close> on it returns an instance
  with the tag \<^verbatim>\<open>'string'\<close> whose value is exactly \<^verbatim>\<open>'hello'\<close>.
\<close>

theorem charShift_round_trip:
  assumes "\<bar>k\<bar> \<le> 2 ^ 53 - 2 ^ 16"
  shows "\<exists>b h1. charShift (Fin (of_int k)) (string_instance (lit ''hello'') nm) h = (Returns b, h1)
     \<and> (isString b \<longrightarrow>
          (\<exists>c h2. charShift (num_neg (Fin (of_int k))) b h1 = (Returns c, h2)
             \<and> value' c = JStr (lit ''hello'') \<and> isString c))"
  using assms by (rule charShift_round_trip_lemma)

theorem charShift_round_trip_witness:
  "\<bar>1 :: int\<bar> \<le> 2 ^ 53 - 2 ^ 16
   \<and> charShift (Fin (of_int 1)) (string_instance (lit ''hello'') (lit ''s'')) [] =
       (Returns (string_instance (lit ''ifmmp'') (lit ''charShift(s, 1)'')), [])
   \<and> isString (string_instance (lit ''ifmmp'') (lit ''charShift(s, 1)''))
   \<and> charShift (num_neg (Fin (of_int 1)))
         (string_instance (lit ''ifmmp'') (lit ''charShift(s, 1)'')) [] =
       (Returns (string_instance (lit ''hello'') (lit ''charShift(charShift(s, 1), -1)'')), [])
   \<and> value' (string_instance (lit ''hello'') (lit ''charShift(charShift(s, 1), -1)'')) =
       JStr (lit ''hello'')"
proof -
  have k: "\<bar>1 :: int\<bar> \<le> 2 ^ 53 - 2 ^ 16" by simp
  have s: "isString (string_instance (lit ''ifmmp'') (lit ''charShift(s, 1)''))"
    and v: "value' (string_instance (lit ''hello'') (lit ''charShift(charShift(s, 1), -1)'')) =
       JStr (lit ''hello'')"
    by (simp_all add: isString_def value'_def string_instance_def)
  from charShift_round_trip[OF k, of "lit ''s''" "[]"]
  obtain b h1 where
    "charShift (Fin (of_int 1)) (string_instance (lit ''hello'') (lit ''s'')) [] = (Returns b, h1)"
    by blast
  with charShift_1 charShift_minus_1 k s v show ?thesis
    by (simp only: of_int_1)
qed

subsection \<open>Decimal digits\<close>

lemma digit_char_props:
  assumes "d < 10"
  shows "is_digit (digit_char d)" and "char_digit (digit_char d) = d"
    and "digit_char d = 0x30 \<longleftrightarrow> d = 0"
proof -
  have "unat (digit_char d) = (48 + d) mod 2 ^ LENGTH(16)"
    unfolding digit_char_def by (rule unat_of_nat)
  with assms have u: "unat (digit_char d) = 48 + d" by simp
  have le: "\<And>a b :: jchar. a \<le> b \<longleftrightarrow> unat a \<le> unat b" by (simp add: word_le_nat_alt)
  from u assms show "is_digit (digit_char d)"
    by (simp add: is_digit_def le)
  from u assms show "char_digit (digit_char d) = d"
    by (simp add: char_digit_def le)
  have "digit_char d = 0x30 \<longleftrightarrow> unat (digit_char d) = unat (0x30 :: jchar)"
    by (simp only: word_unat_eq_iff)
  with u show "digit_char d = 0x30 \<longleftrightarrow> d = 0" by simp
qed

lemma is_digit_char_digit: "is_digit c \<Longrightarrow> char_digit c < 10"
  by (auto simp add: is_digit_def char_digit_def word_le_nat_alt)

lemma foldl_digits:
  "foldl (\<lambda>a c. b * a + char_digit c) a ds =
     a * b ^ length ds + foldl (\<lambda>a c. b * a + char_digit c) 0 ds"
proof (induction ds arbitrary: a)
  case Nil
  then show ?case by simp
next
  case (Cons c ds)
  have "foldl (\<lambda>a c. b * a + char_digit c) (b * a + char_digit c) ds =
          (b * a + char_digit c) * b ^ length ds
          + foldl (\<lambda>a c. b * a + char_digit c) 0 ds"
    by (rule Cons.IH)
  moreover have "foldl (\<lambda>a c. b * a + char_digit c) (char_digit c) ds =
          char_digit c * b ^ length ds + foldl (\<lambda>a c. b * a + char_digit c) 0 ds"
    by (rule Cons.IH)
  ultimately show ?case by (simp add: algebra_simps)
qed

lemma digits_val_append:
  "digits_val b (xs @ ys) = digits_val b xs * b ^ length ys + digits_val b ys"
  by (simp add: digits_val_def foldl_digits[of b "foldl _ _ xs"])

lemma digits_val_Nil [simp]: "digits_val b [] = 0"
  by (simp add: digits_val_def)

lemma digits_val_single [simp]: "digits_val b [c] = char_digit c"
  by (simp add: digits_val_def)

lemma digits_val_zeros [simp]: "digits_val b (replicate m 0x30) = 0"
  by (induction m) (simp_all add: digits_val_def char_digit_def)

lemma dec_digits_props:
  "dec_digits n \<noteq> [] \<and> list_all is_digit (dec_digits n) \<and> digits_val 10 (dec_digits n) = n
   \<and> (0 < n \<longrightarrow> hd (dec_digits n) \<noteq> 0x30)"
proof (induction n rule: dec_digits.induct)
  case (1 n)
  show ?case
  proof (cases "n < 10")
    case True
    then show ?thesis
      by (subst (1 2 3 4) dec_digits.simps) (simp add: digit_char_props)
  next
    case False
    then have m: "n mod 10 < 10" and d: "0 < n div 10" by simp_all
    from 1[OF False] d False show ?thesis
      by (subst (1 2 3 4) dec_digits.simps)
         (simp add: digits_val_append digit_char_props[OF m])
  qed
qed

lemmas dec_digits_nonempty [simp] = dec_digits_props[THEN conjunct1]
lemmas dec_digits_all = dec_digits_props[THEN conjunct2, THEN conjunct1]
lemmas digits_val_dec_digits [simp] = dec_digits_props[THEN conjunct2, THEN conjunct2, THEN conjunct1]
lemmas hd_dec_digits = dec_digits_props[THEN conjunct2, THEN conjunct2, THEN conjunct2, rule_format]

subsection \<open>Reading a printed decimal\<close>

lemma takeWhile_digits:
  assumes "list_all is_digit ds" and "rest = [] \<or> \<not> is_digit (hd rest)"
  shows "takeWhile is_digit (ds @ rest) = ds" and "dropWhile is_digit (ds @ rest) = rest"
  using assms by (cases rest; simp add: takeWhile_append2 dropWhile_append2 list_all_iff)+

lemma not_digit_chars [simp]:
  "\<not> is_digit 0x2E" "\<not> is_digit 0x65" "\<not> is_digit 0x2B" "\<not> is_digit 0x2D"
  by (simp_all add: is_digit_def)

lemma parse_exponent_plus:
  "parse_exponent (0x65 # 0x2B # dec_digits m) = Some (int m)"
  by (simp add: parse_exponent_def parse_signed_integer_def all_digits_def dec_digits_all)

lemma parse_exponent_minus:
  "parse_exponent (0x65 # 0x2D # dec_digits m) = Some (- int m)"
  by (simp add: parse_exponent_def parse_signed_integer_def all_digits_def dec_digits_all)

lemma parse_exponent_Nil: "parse_exponent [] = Some 0"
  by (simp add: parse_exponent_def)

lemma parse_integer_part:
  assumes "list_all is_digit ip" and "ip \<noteq> []" and "parse_exponent tail = Some x"
    and "tail = [] \<or> hd tail = 0x65"
  shows "parse_unsigned_decimal (ip @ tail) = Some (of_nat (digits_val 10 ip) * 10 powi x)"
proof (cases tail)
  case Nil
  have tw: "takeWhile is_digit ip = ip" "dropWhile is_digit ip = []"
    using assms(1) by (simp_all add: list_all_iff)
  from assms(2,3) Nil show ?thesis
    by (simp add: parse_unsigned_decimal_def parse_exponent_def tw)
next
  case (Cons c r)
  with assms(4) have c: "c = 0x65" by simp
  with Cons have nd: "tail = [] \<or> \<not> is_digit (hd tail)" by simp
  note tw = takeWhile_digits[OF assms(1) nd]
  from assms(2,3) Cons c show ?thesis
    by (simp add: parse_unsigned_decimal_def tw[unfolded Cons c])
qed

lemma parse_with_fraction:
  assumes "list_all is_digit ip" and "ip \<noteq> []" and "list_all is_digit fp"
    and "parse_exponent tail = Some x" and "tail = [] \<or> hd tail = 0x65"
  shows "parse_unsigned_decimal (ip @ 0x2E # fp @ tail) =
           Some (of_nat (digits_val 10 (ip @ fp)) * 10 powi (x - int (length fp)))"
proof -
  have nd: "tail = [] \<or> \<not> is_digit (hd tail)" using assms(5) by auto
  have "0x2E # fp @ tail = [] \<or> \<not> is_digit (hd (0x2E # fp @ tail))" by simp
  note tw1 = takeWhile_digits[OF assms(1) this]
  note tw2 = takeWhile_digits[OF assms(3) nd]
  from assms(2,4) show ?thesis
    by (simp add: parse_unsigned_decimal_def tw1 tw2)
qed

text \<open>Every layout of \<^verbatim>\<open>Number::toString\<close> is read back with the value of its digits.\<close>

lemma list_all_take_drop:
  "list_all P xs \<Longrightarrow> list_all P (take m xs) \<and> list_all P (drop m xs)"
  by (metis append_take_drop_id list_all_append)

lemma zeros_digits [simp]: "list_all is_digit (replicate m 0x30)"
  by (induction m) (simp_all add: is_digit_def)

lemma zero_digit [simp]: "is_digit 0x30"
  by (simp add: is_digit_def)

lemma of_nat_pow10: "(of_nat (s * 10 ^ m) :: rat) = of_nat s * 10 powi int m"
  by simp

lemma parse_fmt:
  assumes "0 < s"
  shows "parse_unsigned_decimal (fmt s n) = Some (dec_value (s, n))"
proof -
  define ds where "ds = dec_digits s"
  define k where "k = int (length ds)"
  have ds: "list_all is_digit ds" "ds \<noteq> []" "digits_val 10 ds = s"
    by (simp_all add: ds_def dec_digits_all)
  have kpos: "0 < k" using ds(2) by (simp add: k_def)
  note fmt' = fmt_def[of s n, unfolded Let_def, folded ds_def, folded k_def]
  have dv: "dec_value (s, n) = of_nat s * 10 powi (n - k)"
    by (simp add: dec_value_def ds_def k_def)
  consider (int) "- 5 \<le> n" "n \<le> 21" "k \<le> n"
    | (frac) "- 5 \<le> n" "n \<le> 21" "0 < n" "n < k"
    | (small) "- 5 \<le> n" "n \<le> 0"
    | (exp1) "\<not> (- 5 \<le> n \<and> n \<le> 21)" "k = 1"
    | (expk) "\<not> (- 5 \<le> n \<and> n \<le> 21)" "k \<noteq> 1"
    using kpos by linarith
  then show ?thesis
  proof cases
    case int
    have f: "fmt s n = (ds @ replicate (nat (n - k)) 0x30) @ []"
      using int by (simp add: fmt')
    have "parse_unsigned_decimal ((ds @ replicate (nat (n - k)) 0x30) @ []) =
            Some (of_nat (digits_val 10 (ds @ replicate (nat (n - k)) 0x30)) * 10 powi 0)"
      by (rule parse_integer_part)
         (simp_all add: ds parse_exponent_Nil)
    moreover have "(10 :: rat) ^ nat (n - k) = 10 powi (n - k)"
      using int by (simp add: power_int_def)
    ultimately show ?thesis
      unfolding f dv by (simp add: digits_val_append ds)
  next
    case frac
    have f: "fmt s n = take (nat n) ds @ 0x2E # drop (nat n) ds @ []"
      using frac by (simp add: fmt')
    have ne: "take (nat n) ds \<noteq> []" using frac ds(2) by simp
    have "parse_unsigned_decimal (take (nat n) ds @ 0x2E # drop (nat n) ds @ []) =
            Some (of_nat (digits_val 10 (take (nat n) ds @ drop (nat n) ds))
                  * 10 powi (0 - int (length (drop (nat n) ds))))"
      by (rule parse_with_fraction)
         (use frac ds in \<open>simp_all add: list_all_take_drop parse_exponent_Nil\<close>)
    moreover have "0 - int (length (drop (nat n) ds)) = n - k"
      using frac by (simp add: k_def)
    ultimately show ?thesis
      unfolding f dv by (simp add: ds)
  next
    case small
    have f: "fmt s n = [0x30] @ 0x2E # (replicate (nat (- n)) 0x30 @ ds) @ []"
      using small kpos by (simp add: fmt')
    have "parse_unsigned_decimal ([0x30] @ 0x2E # (replicate (nat (- n)) 0x30 @ ds) @ []) =
            Some (of_nat (digits_val 10 ([0x30] @ (replicate (nat (- n)) 0x30 @ ds)))
                  * 10 powi (0 - int (length (replicate (nat (- n)) 0x30 @ ds))))"
      by (rule parse_with_fraction)
         (simp_all add: ds parse_exponent_Nil)
    moreover have "0 - int (length (replicate (nat (- n)) (0x30 :: jchar) @ ds)) = n - k"
      using small by (simp add: k_def)
    moreover have "digits_val 10 ([0x30] @ (replicate (nat (- n)) 0x30 @ ds)) = s"
    proof -
      have "digits_val 10 (replicate (Suc (nat (- n))) 0x30 @ ds) = s"
        by (simp only: digits_val_append digits_val_zeros ds)
      then show ?thesis by simp
    qed
    ultimately show ?thesis
      unfolding f dv by simp
  next
    case exp1
    show ?thesis
    proof (cases "0 < n - 1")
      case True
      have f: "fmt s n = ds @ (0x65 # 0x2B # dec_digits (nat \<bar>n - 1\<bar>))"
        using exp1 True by (simp add: fmt')
      have "parse_unsigned_decimal (ds @ (0x65 # 0x2B # dec_digits (nat \<bar>n - 1\<bar>))) =
              Some (of_nat (digits_val 10 ds) * 10 powi (int (nat \<bar>n - 1\<bar>)))"
        by (rule parse_integer_part) (simp_all add: ds parse_exponent_plus)
      moreover have "int (nat \<bar>n - 1\<bar>) = n - k" using True exp1 by simp
      ultimately show ?thesis unfolding f dv by (simp add: ds)
    next
      case False
      have f: "fmt s n = ds @ (0x65 # 0x2D # dec_digits (nat \<bar>n - 1\<bar>))"
        using exp1 False by (simp add: fmt')
      have "parse_unsigned_decimal (ds @ (0x65 # 0x2D # dec_digits (nat \<bar>n - 1\<bar>))) =
              Some (of_nat (digits_val 10 ds) * 10 powi (- int (nat \<bar>n - 1\<bar>)))"
        by (rule parse_integer_part) (simp_all add: ds parse_exponent_minus)
      moreover have "- int (nat \<bar>n - 1\<bar>) = n - k" using False exp1 by simp
      ultimately show ?thesis unfolding f dv by (simp add: ds)
    qed
  next
    case expk
    have ne: "take 1 ds \<noteq> []" using ds(2) by simp
    have len: "int (length (drop 1 ds)) = k - 1"
      using ds(2) by (cases ds) (simp_all add: k_def)
    show ?thesis
    proof (cases "0 < n - 1")
      case True
      have f: "fmt s n = take 1 ds @ 0x2E # drop 1 ds @ (0x65 # 0x2B # dec_digits (nat \<bar>n - 1\<bar>))"
        using expk True by (simp add: fmt')
      have "parse_unsigned_decimal
              (take 1 ds @ 0x2E # drop 1 ds @ (0x65 # 0x2B # dec_digits (nat \<bar>n - 1\<bar>))) =
              Some (of_nat (digits_val 10 (take 1 ds @ drop 1 ds))
                    * 10 powi (int (nat \<bar>n - 1\<bar>) - int (length (drop 1 ds))))"
        by (rule parse_with_fraction)
           (use ds in \<open>simp_all add: list_all_take_drop parse_exponent_plus\<close>)
      moreover have "int (nat \<bar>n - 1\<bar>) - int (length (drop 1 ds)) = n - k"
        using True unfolding len by simp
      ultimately show ?thesis unfolding f dv by (simp add: ds)
    next
      case False
      have f: "fmt s n = take 1 ds @ 0x2E # drop 1 ds @ (0x65 # 0x2D # dec_digits (nat \<bar>n - 1\<bar>))"
        using expk False by (simp add: fmt')
      have "parse_unsigned_decimal
              (take 1 ds @ 0x2E # drop 1 ds @ (0x65 # 0x2D # dec_digits (nat \<bar>n - 1\<bar>))) =
              Some (of_nat (digits_val 10 (take 1 ds @ drop 1 ds))
                    * 10 powi (- int (nat \<bar>n - 1\<bar>) - int (length (drop 1 ds))))"
        by (rule parse_with_fraction)
           (use ds in \<open>simp_all add: list_all_take_drop parse_exponent_minus\<close>)
      moreover have "- int (nat \<bar>n - 1\<bar>) - int (length (drop 1 ds)) = n - k"
        using False unfolding len by simp
      ultimately show ?thesis unfolding f dv by (simp add: ds)
    qed
  qed
qed

lemma last_digit: "list_all is_digit xs \<Longrightarrow> xs \<noteq> [] \<Longrightarrow> is_digit (last xs)"
  by (simp add: list_all_iff)

lemma fmt_shape:
  assumes "0 < s"
  shows "\<exists>c r. fmt s n = c # r \<and> is_digit c \<and> is_digit (last (c # r))
           \<and> (c = 0x30 \<longrightarrow> (\<exists>r'. r = 0x2E # r'))"
proof -
  define ds where "ds = dec_digits s"
  define k where "k = int (length ds)"
  have ds: "list_all is_digit ds" "ds \<noteq> []"
    by (simp_all add: ds_def dec_digits_all)
  have "hd ds \<noteq> 0x30" using hd_dec_digits[OF assms] by (simp add: ds_def)
  with ds obtain d dr where d: "ds = d # dr" "is_digit d" "d \<noteq> 0x30" "list_all is_digit dr"
    by (cases ds) auto
  have kpos: "0 < k" using ds(2) by (simp add: k_def)
  have kd: "k = 1 + int (length dr)" by (simp add: k_def d)
  note fmt' = fmt_def[of s n, unfolded Let_def, folded ds_def, folded k_def]
  have ex: "list_all is_digit (dec_digits m)" "dec_digits m \<noteq> []" for m
    by (simp_all add: dec_digits_all)
  consider (int) "- 5 \<le> n" "n \<le> 21" "k \<le> n"
    | (frac) "- 5 \<le> n" "n \<le> 21" "0 < n" "n < k"
    | (small) "- 5 \<le> n" "n \<le> 0"
    | (exp1) "\<not> (- 5 \<le> n \<and> n \<le> 21)" "k = 1"
    | (expk) "\<not> (- 5 \<le> n \<and> n \<le> 21)" "k \<noteq> 1"
    using kpos by linarith
  then show ?thesis
  proof cases
    case int
    then have "fmt s n = d # (dr @ replicate (nat (n - k)) 0x30)"
      by (simp add: fmt' d)
    moreover have "is_digit (last (d # (dr @ replicate (nat (n - k)) 0x30)))"
      by (rule last_digit) (simp_all add: d)
    ultimately show ?thesis using d by blast
  next
    case frac
    then obtain m where m: "nat n = Suc m" "m < length dr"
      using kd by (cases "nat n") auto
    with frac have "fmt s n = d # (take m dr @ 0x2E # drop m dr)"
      by (simp add: fmt' d)
    moreover have "is_digit (last (d # (take m dr @ 0x2E # drop m dr)))"
      using m last_digit[OF list_all_take_drop[OF d(4), of m, THEN conjunct2]] by simp
    ultimately show ?thesis using d by blast
  next
    case small
    with kpos have "fmt s n = 0x30 # 0x2E # (replicate (nat (- n)) 0x30 @ ds)"
      by (simp add: fmt')
    moreover have "is_digit (last (0x30 # 0x2E # (replicate (nat (- n)) 0x30 @ ds)))"
      using last_digit[OF ds] ds(2) by simp
    ultimately show ?thesis by auto
  next
    case exp1
    then have "\<exists>sg. fmt s n = d # (dr @ 0x65 # sg # dec_digits (nat \<bar>n - 1\<bar>))"
      by (cases "0 < n - 1") (auto simp: fmt' d)
    moreover have "is_digit (last (d # (dr @ 0x65 # sg # dec_digits (nat \<bar>n - 1\<bar>))))" for sg
      using last_digit[OF ex] ex(2) by simp
    ultimately show ?thesis using d by blast
  next
    case expk
    then have "\<exists>sg. fmt s n = d # (0x2E # dr @ 0x65 # sg # dec_digits (nat \<bar>n - 1\<bar>))"
      by (cases "0 < n - 1") (auto simp: fmt' d)
    moreover have "is_digit (last (d # (0x2E # dr @ 0x65 # sg # dec_digits (nat \<bar>n - 1\<bar>))))" for sg
      using last_digit[OF ex] ex(2) by simp
    ultimately show ?thesis using d by blast
  qed
qed

lemma digit_not_ws: "is_digit c \<Longrightarrow> \<not> is_ws c"
  by (auto simp: is_digit_def is_ws_def word_le_nat_alt)

lemma trim_id:
  assumes "s \<noteq> []" and "\<not> is_ws (hd s)" and "\<not> is_ws (last s)"
  shows "trim s = s"
proof -
  from assms(1,2) have a: "dropWhile is_ws s = s" by (cases s) simp_all
  from assms(1) obtain ys y where s: "s = ys @ [y]" by (cases s rule: rev_cases) auto
  with assms(3) have "dropWhile is_ws (rev s) = rev s" by simp
  with a show ?thesis by (simp add: trim_def)
qed

lemma StringToNumber_decimal:
  assumes "is_digit c" and "is_digit (last (c # r))" and "c = 0x30 \<longrightarrow> (\<exists>r'. r = 0x2E # r')"
    and "parse_unsigned_decimal (c # r) = Some mv" and "mv \<noteq> 0"
  shows "StringToNumber (c # r) = fl mv" and "StringToNumber (0x2D # c # r) = num_neg (fl mv)"
    and "trim (c # r) = c # r" and "trim (0x2D # c # r) = 0x2D # c # r"
proof -
  show t1: "trim (c # r) = c # r"
    by (rule trim_id) (use assms(1,2) in \<open>simp_all add: digit_not_ws\<close>)
  have nl: "\<not> is_ws (last (c # r))" using assms(2) by (rule digit_not_ws)
  have "last (0x2D # c # r) = last (c # r)" by simp
  with nl have "\<not> is_ws (last (0x2D # c # r))" by metis
  then show t2: "trim (0x2D # c # r) = 0x2D # c # r"
    by (rule trim_id[rotated 2]) (simp_all add: is_ws_def)
  have rp1: "radix_prefix (c # r) = None"
    using assms(3) by (cases r) (auto simp: radix_prefix_def)
  have rp2: "radix_prefix (0x2D # c # r) = None"
    by (simp add: radix_prefix_def)
  have c: "c \<noteq> 0x2D" "c \<noteq> 0x2B" "c \<noteq> 0x49" using assms(1) by (auto simp: is_digit_def)
  then have inf: "c # r \<noteq> lit ''Infinity''" by (simp add: lit_def)
  from assms(4,5) c inf show "StringToNumber (c # r) = fl mv"
    by (simp add: StringToNumber_def t1 rp1 num_of_mv_def with_sign_def)
  from assms(4,5) c inf show "StringToNumber (0x2D # c # r) = num_neg (fl mv)"
    by (simp add: StringToNumber_def t2 rp2 num_of_mv_def with_sign_def)
qed

subsection \<open>The digits chosen by \<^verbatim>\<open>Number::toString\<close> round to the Number\<close>

lemma pick_rounds: "pick x n0 k = Some c \<Longrightarrow> rounds_to x c"
  by (auto simp: pick_def split: if_splits)

lemma if_Fin: "(if b then PInf else Fin r) = Fin x \<Longrightarrow> r = x"
  by (cases b) simp_all

lemma fl_exact_form:
  assumes "fl x = Fin x"
  shows "\<exists>m e. - 1074 \<le> e \<and> x = of_int m * 2 powi e"
proof -
  define e where "e = max (ilog2 x - 52) (- 1074)"
  from assms have "(if (2 :: rat) ^ 1024 \<le> of_int (rne (x / 2 powi e)) * 2 powi e then PInf
                    else Fin (of_int (rne (x / 2 powi e)) * 2 powi e)) = Fin x"
    by (simp only: fl_def Let_def e_def)
  then have "of_int (rne (x / 2 powi e)) * 2 powi e = x" by (rule if_Fin)
  moreover have "- 1074 \<le> e" unfolding e_def by (rule max.cobounded2)
  ultimately show ?thesis by metis
qed

lemma dyadic_decimal:
  fixes x :: rat
  assumes "x = of_int m * 2 powi e" and "- int N \<le> e"
  shows "\<exists>z. x * 10 ^ N = of_int z"
proof -
  have "(2 :: rat) powi e * 2 ^ N = 2 powi (e + int N)"
    by (simp add: power_int_add)
  also have "\<dots> = 2 ^ nat (e + int N)"
    using assms(2) by (simp add: power_int_def)
  finally have p: "(2 :: rat) powi e * 2 ^ N = 2 ^ nat (e + int N)" .
  have "(10 :: rat) ^ N = 2 ^ N * 5 ^ N"
    by (simp flip: power_mult_distrib)
  then have "x * 10 ^ N = of_int m * (2 powi e * 2 ^ N) * 5 ^ N"
    by (simp add: assms(1))
  also have "\<dots> = of_int (m * 2 ^ nat (e + int N) * 5 ^ N)"
    by (simp only: p of_int_mult of_int_power of_int_numeral)
  finally show ?thesis by blast
qed

lemma length_dec_digits: "0 < n \<Longrightarrow> length (dec_digits n) = dlen n"
proof (induction n rule: dec_digits.induct)
  case (1 n)
  show ?case
  proof (cases "n < 10")
    case True
    with 1(2) have "n div 10 = 0" by simp
    with True 1(2) show ?thesis
      by (subst dec_digits.simps, subst dlen.simps, subst dlen.simps) simp
  next
    case False
    then have "0 < n div 10" by simp
    from 1(1)[OF False this] False show ?thesis
      by (subst dec_digits.simps, subst dlen.simps) simp
  qed
qed

lemma exact_expansion_rounds:
  fixes x :: rat
  assumes "fl x = Fin x" and "0 < x" and "x * 10 ^ N = of_int z"
  shows "rounds_to x (nat \<lfloor>x * 10 ^ N\<rfloor>, int (dlen (nat \<lfloor>x * 10 ^ N\<rfloor>)) - int N)"
proof -
  from assms(2) have "0 < x * 10 ^ N" by simp
  with assms(3) have z: "0 < z" by simp
  have fz: "nat \<lfloor>x * 10 ^ N\<rfloor> = nat z" by (simp only: assms(3) floor_of_int)
  from z have len: "length (dec_digits (nat z)) = dlen (nat z)"
    by (simp add: length_dec_digits)
  have "dec_value (nat z, int (dlen (nat z)) - int N) = of_nat (nat z) * 10 powi (- int N)"
    by (simp add: dec_value_def len)
  also have "\<dots> = of_int z * 10 powi (- int N)" using z by simp
  also have "\<dots> = x * 10 ^ N * 10 powi (- int N)" by (simp only: assms(3))
  also have "\<dots> = x" by (simp add: power_int_minus)
  finally show ?thesis using assms(1) by (simp only: rounds_to_def fz)
qed

lemma shortest_rounds:
  "fl x = Fin x \<Longrightarrow> 0 < x \<Longrightarrow> rounds_to x (shortest x n0 k)"
proof (induction x n0 k rule: shortest.induct)
  case (1 x n0 k)
  show ?case
  proof (cases "17 < k")
    case True
    from fl_exact_form[OF "1.prems"(1)] obtain m e
      where e: "- 1074 \<le> e" and x: "x = of_int m * 2 powi e" by blast
    from e have "- int 1074 \<le> e" by simp
    from dyadic_decimal[OF x this] obtain z where z: "x * 10 ^ 1074 = of_int z" by blast
    have eq: "shortest x n0 k =
                (nat \<lfloor>x * 10 ^ 1074\<rfloor>, int (dlen (nat \<lfloor>x * 10 ^ 1074\<rfloor>)) - int 1074)"
      using True by (subst shortest.simps) (simp only: if_True of_nat_numeral)
    show ?thesis
      unfolding eq by (rule exact_expansion_rounds[OF "1.prems" z])
  next
    case False
    show ?thesis
    proof (cases "pick x n0 k")
      case None
      with False have eq: "shortest x n0 k = shortest x n0 (Suc k)"
        by (subst shortest.simps) (simp only: if_False option.case)
      show ?thesis
        unfolding eq by (rule "1.IH"[OF False None "1.prems"])
    next
      case (Some c)
      with False have eq: "shortest x n0 k = c"
        by (subst shortest.simps) (simp only: if_False option.case)
      show ?thesis
        unfolding eq by (rule pick_rounds[OF Some])
    qed
  qed
qed

lemma fl_zero: "fl 0 = Fin 0"
  by (simp add: eval_number)

text \<open>
  The text printed for a positive Number: a decimal literal that starts and ends with a
  digit and whose value rounds back to the Number.
\<close>

lemma pos_toString_shape:
  assumes "fl x = Fin x" and "0 < x"
  shows "\<exists>c r mv. pos_toString x = c # r \<and> is_digit c \<and> is_digit (last (c # r))
           \<and> (c = 0x30 \<longrightarrow> (\<exists>r'. r = 0x2E # r'))
           \<and> parse_unsigned_decimal (c # r) = Some mv \<and> mv \<noteq> 0 \<and> fl mv = Fin x"
proof -
  define s where "s = fst (shortest x (dexp x) 1)"
  define n where "n = snd (shortest x (dexp x) 1)"
  have "rounds_to x (s, n)"
    unfolding s_def n_def prod.collapse by (rule shortest_rounds[OF assms])
  then have r: "fl (dec_value (s, n)) = Fin x" by (simp only: rounds_to_def)
  have nz: "dec_value (s, n) \<noteq> 0"
  proof
    assume "dec_value (s, n) = 0"
    with r fl_zero assms(2) show False by simp
  qed
  then have spos: "0 < s" by (auto simp: dec_value_def)
  from fmt_shape[OF spos, of n] obtain c r
    where f: "fmt s n = c # r" "is_digit c" "is_digit (last (c # r))"
      "c = 0x30 \<longrightarrow> (\<exists>r'. r = 0x2E # r')" by blast
  from parse_fmt[OF spos, of n] have p: "parse_unsigned_decimal (c # r) = Some (dec_value (s, n))"
    by (simp only: f(1))
  have ps: "pos_toString x = c # r"
    by (simp only: pos_toString_def f(1)[symmetric] s_def n_def)
  from ps f(2,3,4) p nz r show ?thesis by blast
qed

subsection \<open>\<^verbatim>\<open>toString()\<close> on a number\<close>

lemma not_true_false:
  assumes "is_digit c \<or> c = 0x2D"
  shows "\<not> matches_ignoring_case (c # r) ''true''" and "\<not> matches_ignoring_case (c # r) ''false''"
  using assms
  by (auto simp: matches_ignoring_case_def lit_def same_letter_def is_digit_def)

lemma spec_coerce_number:
  assumes "trim t = c # r" and "is_digit c \<or> c = 0x2D" and "StringToNumber (c # r) = Fin q"
  shows "spec_coerce t h = ((JNum (Fin q), ''number''), h)"
  using assms(3) not_true_false[OF assms(2), of r]
  by (simp add: spec_coerce_def assms(1) finite_number_def)

text \<open>
  The text of a finite Number is coerced back to that Number by the constructor; the
  text of \<open>-0\<close> is \<^verbatim>\<open>0\<close>, which is coerced to \<open>+0\<close>.
\<close>

lemma num_toString_coerce:
  assumes "finite_Number n"
  shows "spec_coerce (num_toString n) h =
           ((JNum (if n = NZero then Fin 0 else n), ''number''), h)"
proof -
  have zero: "spec_coerce (lit ''0'') h = ((JNum (Fin 0), ''number''), h)"
    by (rule spec_coerce_number[of _ "0x30" "[]"])
       (simp_all add: eval_string eval_parse eval_number)
  show ?thesis
  proof (cases n)
    case (Fin q)
    with assms have d: "is_double q" by (simp add: finite_Number_def)
    consider "q = 0" | "0 < q" | "q < 0" by linarith
    then show ?thesis
    proof cases
      case 1
      then show ?thesis by (simp add: Fin num_toString_def zero)
    next
      case 2
      with d have "fl q = Fin q" by (simp add: is_double_def)
      from pos_toString_shape[OF this 2] obtain c r mv
        where p: "pos_toString q = c # r" "is_digit c" "is_digit (last (c # r))"
          "c = 0x30 \<longrightarrow> (\<exists>r'. r = 0x2E # r')"
          "parse_unsigned_decimal (c # r) = Some mv" "mv \<noteq> 0" "fl mv = Fin q" by blast
      note sn = StringToNumber_decimal[OF p(2,3,4,5,6)]
      have "spec_coerce (c # r) h = ((JNum (Fin q), ''number''), h)"
        by (rule spec_coerce_number[of _ c r]) (simp_all add: sn p)
      with 2 show ?thesis by (simp add: Fin num_toString_def p(1))
    next
      case 3
      with d have "fl (- q) = Fin (- q)" by (simp add: is_double_def)
      from pos_toString_shape[OF this] 3 obtain c r mv
        where p: "pos_toString (- q) = c # r" "is_digit c" "is_digit (last (c # r))"
          "c = 0x30 \<longrightarrow> (\<exists>r'. r = 0x2E # r')"
          "parse_unsigned_decimal (c # r) = Some mv" "mv \<noteq> 0" "fl mv = Fin (- q)" by auto
      note sn = StringToNumber_decimal[OF p(2,3,4,5,6)]
      have "StringToNumber (0x2D # c # r) = Fin q"
        using 3 by (simp add: sn p num_neg_def)
      then have "spec_coerce (0x2D # c # r) h = ((JNum (Fin q), ''number''), h)"
        by (intro spec_coerce_number[of _ "0x2D" "c # r"]) (simp_all add: sn)
      with 3 show ?thesis by (simp add: Fin num_toString_def p(1))
    qed
  next
    case NZero
    then show ?thesis by (simp add: num_toString_def zero)
  qed (use assms in \<open>simp_all add: finite_Number_def\<close>)
qed

lemma toString_number:
  assumes "convertedValue this = JNum n" and "finite_Number n"
  shows "toString this h =
     (Returns \<lparr>initialValue = JStr (num_toString n),
        name = lit ''String('' @ name this @ lit '')'', options = default_options,
        typeHistory = [''number''], inferredType = ''number'',
        convertedValue = JNum (if n = NZero then Fin 0 else n)\<rparr>, h)"
proof -
  have locks: "\<not> stringLock default_options" "\<not> typeLock default_options"
    by (simp_all add: default_options_def)
  show ?thesis
    by (simp add: toString_def ToString_def bind_def wrap_def assms(1)
          construct_string_spec[OF locks] num_toString_coerce[OF assms(2)])
qed

text \<open>
  C10, as stated, for every instance that wraps a finite number \<open>n\<close>: \<^verbatim>\<open>toString()\<close>
  returns an instance whose value is again \<open>n\<close>. It fails for \<open>n = -0\<close>:
  \<^verbatim>\<open>String(-0)\<close> is \<^verbatim>\<open>'0'\<close>, which the constructor coerces to \<open>+0\<close>. The two zeros are
  different Numbers: \<^verbatim>\<open>1 / -0\<close> is \<^verbatim>\<open>-Infinity\<close> and \<^verbatim>\<open>1 / 0\<close> is \<^verbatim>\<open>Infinity\<close>.
\<close>

theorem toString_negative_zero:
  "flex (JStr (lit ''x'')) (JNum NZero) default_options [] =
     (Returns \<lparr>initialValue = JNum NZero, name = lit ''x'', options = default_options,
        typeHistory = [''number''], inferredType = ''number'',
        convertedValue = JNum NZero\<rparr>, [])
   \<and> toString \<lparr>initialValue = JNum NZero, name = lit ''x'', options = default_options,
        typeHistory = [''number''], inferredType = ''number'',
        convertedValue = JNum NZero\<rparr> [] =
     (Returns \<lparr>initialValue = JStr (lit ''0''), name = lit ''String(x)'',
        options = default_options, typeHistory = [''number''], inferredType = ''number'',
        convertedValue = JNum (Fin 0)\<rparr>, [])
   \<and> JNum (Fin 0) \<noteq> JNum NZero
   \<and> num_div (Fin 1) NZero = NInf \<and> num_div (Fin 1) (Fin 0) = PInf"
proof -
  have locks: "\<not> stringLock default_options" "\<not> typeLock default_options"
    by (simp_all add: default_options_def)
  have sc: "spec_coerce (lit ''0'') [] = ((JNum (Fin 0), ''number''), [])"
    by (simp add: spec_coerce_def matches_ignoring_case_def same_letter_def finite_number_def
          eval_string eval_parse eval_number Let_def)
  have "toString \<lparr>initialValue = JNum NZero, name = lit ''x'', options = default_options,
        typeHistory = [''number''], inferredType = ''number'',
        convertedValue = JNum NZero\<rparr> [] =
     (Returns \<lparr>initialValue = JStr (lit ''0''), name = lit ''String(x)'',
        options = default_options, typeHistory = [''number''], inferredType = ''number'',
        convertedValue = JNum (Fin 0)\<rparr>, [])"
    by (simp add: toString_def ToString_def bind_def wrap_def num_toString_def
          construct_string_spec[OF locks] sc)
       (simp add: lit_def)
  moreover have "flex (JStr (lit ''x'')) (JNum NZero) default_options [] =
     (Returns \<lparr>initialValue = JNum NZero, name = lit ''x'', options = default_options,
        typeHistory = [''number''], inferredType = ''number'',
        convertedValue = JNum NZero\<rparr>, [])"
    by (simp add: flex_def typeof_def new_FlexType_number inferType_number)
  moreover have "num_div (Fin 1) NZero = NInf \<and> num_div (Fin 1) (Fin 0) = PInf"
    by (simp add: eval_number)
  ultimately show ?thesis by simp
qed

text \<open>
  C10, amended: for every instance that wraps a finite number \<open>n\<close>, \<^verbatim>\<open>toString()\<close>
  returns an instance of type \<^verbatim>\<open>'number'\<close> (history \<^verbatim>\<open>['number']\<close>) whose value is \<open>n\<close>, or
  \<open>+0\<close> when \<open>n\<close> is \<open>-0\<close>; its initial value is the text of \<open>n\<close>. The text printed for
  a Number always reads back as that Number, so the result is never string-typed.
\<close>

theorem toString_recoerces_number:
  assumes "convertedValue this = JNum n" and "finite_Number n"
  shows "toString this h =
     (Returns \<lparr>initialValue = JStr (num_toString n),
        name = lit ''String('' @ name this @ lit '')'', options = default_options,
        typeHistory = [''number''], inferredType = ''number'',
        convertedValue = JNum (if n = NZero then Fin 0 else n)\<rparr>, h)"
  using assms by (rule toString_number)

theorem toString_recoerces_number_witness:
  "convertedValue \<lparr>initialValue = JNum (Fin (3 / 2)), name = lit ''x'',
       options = default_options, typeHistory = [''number''], inferredType = ''number'',
       convertedValue = JNum (Fin (3 / 2))\<rparr> = JNum (Fin (3 / 2))
   \<and> finite_Number (Fin (3 / 2))
   \<and> toString \<lparr>initialValue = JNum (Fin (3 / 2)), name = lit ''x'',
       options = default_options, typeHistory = [''number''], inferredType = ''number'',
       convertedValue = JNum (Fin (3 / 2))\<rparr> [] =
     (Returns \<lparr>initialValue = JStr (lit ''1.5''), name = lit ''String(x)'',
        options = default_options, typeHistory = [''number''], inferredType = ''number'',
        convertedValue = JNum (Fin (3 / 2))\<rparr>, [])"
proof -
  have fin: "finite_Number (Fin (3 / 2))"
    by (simp add: finite_Number_def is_double_def eval_number)
  have ts: "num_toString (Fin (3 / 2)) = lit ''1.5''"
    by (simp add: eval_tostring eval_number lit_def)
  from toString_recoerces_number
         [of "\<lparr>initialValue = JNum (Fin (3 / 2)), name = lit ''x'',
               options = default_options, typeHistory = [''number''],
               inferredType = ''number'', convertedValue = JNum (Fin (3 / 2))\<rparr>"
             "Fin (3 / 2)" "[]"]
       fin ts
  show ?thesis by (simp add: lit_def)
qed

end
